theory Spec2Isabelle
  imports Main
begin

chapter \<open>Message routing and conversation assignment\<close>

text \<open>
  A shallow embedding of the routing core of the customer-service platform: the
  presence manager of \<^verbatim>\<open>src/services/socket.js\<close>, the message processor
  (\<^verbatim>\<open>src/services/messageProcessor.js\<close>), the find-or-create paths of the WhatsApp
  and omnichannel services, the HTTP and socket assignment handlers, and the campaign
  dispatcher. Identifiers are JavaScript strings; the persistence store is a record of
  tables (lists of rows, in the order queries return them).
\<close>

section \<open>Presence manager (socket.js)\<close>

type_synonym ident = string

text \<open>
  \<^verbatim>\<open>userSockets\<close> is a \<^verbatim>\<open>Map\<close> from user id to a \<^verbatim>\<open>Set\<close> of socket ids,
  \<^verbatim>\<open>socketUsers\<close> a \<^verbatim>\<open>Map\<close> from socket id to user id.
\<close>

record presence =
  userSockets :: "ident \<rightharpoonup> ident set"
  socketUsers :: "ident \<rightharpoonup> ident"

definition new_presence :: presence where
  "new_presence = \<lparr>userSockets = Map.empty, socketUsers = Map.empty\<rparr>"

text \<open>JavaScript truthiness of a string: every string but the empty one.\<close>

definition truthy :: "ident \<Rightarrow> bool" where
  "truthy s = (s \<noteq> [])"

definition addUser :: "ident \<Rightarrow> ident \<Rightarrow> presence \<Rightarrow> presence" where
  "addUser userId socketId pm =
     (let us = (case userSockets pm userId of
                  None \<Rightarrow> (userSockets pm)(userId \<mapsto> {})
                | Some _ \<Rightarrow> userSockets pm);
          us' = (case us userId of
                  None \<Rightarrow> us
                | Some S \<Rightarrow> us(userId \<mapsto> insert socketId S))
      in pm\<lparr>userSockets := us', socketUsers := (socketUsers pm)(socketId \<mapsto> userId)\<rparr>)"

text \<open>
  \<^verbatim>\<open>removeUser\<close> returns the owner of the socket (\<^verbatim>\<open>undefined\<close> is \<open>None\<close>) and
  the updated manager. The body of \<^verbatim>\<open>if (userId)\<close> runs for a truthy id only.
\<close>

definition removeUser :: "ident \<Rightarrow> presence \<Rightarrow> ident option \<times> presence" where
  "removeUser socketId pm =
     (case socketUsers pm socketId of
        None \<Rightarrow> (None, pm)
      | Some userId \<Rightarrow>
          if truthy userId then
            (let pm1 = (case userSockets pm userId of
                          None \<Rightarrow> pm
                        | Some S \<Rightarrow>
                            (let S' = S - {socketId}
                             in if S' = {}
                                then pm\<lparr>userSockets := (userSockets pm)(userId := None)\<rparr>
                                else pm\<lparr>userSockets := (userSockets pm)(userId \<mapsto> S')\<rparr>))
             in (Some userId, pm1\<lparr>socketUsers := (socketUsers pm1)(socketId := None)\<rparr>))
          else (Some userId, pm))"

definition isUserOnline :: "ident \<Rightarrow> presence \<Rightarrow> bool" where
  "isUserOnline userId pm =
     (case userSockets pm userId of None \<Rightarrow> False | Some S \<Rightarrow> S \<noteq> {})"

section \<open>The persistence store and the collaborators\<close>

datatype role = AGENT | MANAGER | ADMIN | OWNER

text \<open>The code tests a user's status against \<^verbatim>\<open>'ACTIVE'\<close> only.\<close>

datatype user_status = ACTIVE | INACTIVE

datatype conv_status = OPEN | PENDING | CLOSED

record user =
  user_id :: ident
  user_companyId :: ident
  isOnline :: bool
  user_role :: role
  user_status :: user_status

record company =
  company_id :: ident

record chatbot =
  bot_companyId :: ident
  bot_isActive :: bool

text \<open>
  A conversation row. \<^verbatim>\<open>metadata.channels\<close> and \<^verbatim>\<open>metadata.lastChannel\<close> are the
  two metadata entries the routing core reads or writes; \<open>None\<close> stands for an entry
  that is not there.
\<close>

record conversation =
  conv_id :: ident
  conv_contactId :: ident
  conv_companyId :: ident
  conv_status :: conv_status
  conv_channel :: string
  conv_whatsappId :: "ident option"
  meta_channels :: "string list option"
  meta_lastChannel :: "string option"

record conversationAgent =
  ca_userId :: ident
  ca_conversationId :: ident
  ca_isActive :: bool

record message =
  msg_content :: string
  msg_conversationId :: ident
  msg_outbound :: bool

text \<open>Events given to \<^verbatim>\<open>notifyCompany\<close>: the company, the event name and its payload.\<close>

datatype event =
    ConversationAssigned ident ident ident
  | ConversationPending ident ident
  | MessageNew ident ident

datatype err = CollaboratorError | TypeError | RecordNotFound

text \<open>
  The world a handler runs in: the tables of the store, the messages handed to the
  channel transport (\<open>outbox\<close>: account, phone, content), the events emitted on the
  realtime transport (\<open>io\<close> says whether the socket server has been initialised), the
  errors given to \<^verbatim>\<open>logger.error\<close>, and the processor's \<^verbatim>\<open>processingQueue\<close>.
  \<open>faults\<close> is the fate of the awaited collaborator calls still to come, in order:
  \<open>True\<close> for a call that throws. An empty schedule means no call throws.
\<close>

record world =
  users :: "user list"
  companies :: "company list"
  chatbots :: "chatbot list"
  conversations :: "conversation list"
  conversationAgents :: "conversationAgent list"
  messages :: "message list"
  outbox :: "(ident \<times> string \<times> string) list"
  emitted :: "event list"
  io :: bool
  logged :: "err list"
  faults :: "bool list"
  processingQueue :: "ident set"

type_synonym 'a action = "world \<Rightarrow> (err + 'a) \<times> world"

definition return_io :: "'a \<Rightarrow> 'a action" where
  "return_io x w = (Inr x, w)"

definition throw_io :: "err \<Rightarrow> 'a action" where
  "throw_io e w = (Inl e, w)"

definition bind_io :: "'a action \<Rightarrow> ('a \<Rightarrow> 'b action) \<Rightarrow> 'b action" where
  "bind_io m f w = (case m w of (Inl e, w') \<Rightarrow> (Inl e, w') | (Inr x, w') \<Rightarrow> f x w')"

definition try_catch :: "'a action \<Rightarrow> (err \<Rightarrow> 'a action) \<Rightarrow> 'a action" where
  "try_catch m h w = (case m w of (Inl e, w') \<Rightarrow> h e w' | (Inr x, w') \<Rightarrow> (Inr x, w'))"

definition log_error :: "err \<Rightarrow> unit action" where
  "log_error e w = (Inr (), w\<lparr>logged := logged w @ [e]\<rparr>)"

text \<open>An awaited call on a collaborator: it throws when the schedule says so.\<close>

definition collaborator_call :: "'a action \<Rightarrow> 'a action" where
  "collaborator_call f w =
     (case faults w of
        [] \<Rightarrow> f w
      | b # bs \<Rightarrow> if b then (Inl CollaboratorError, w\<lparr>faults := bs\<rparr>)
                  else f (w\<lparr>faults := bs\<rparr>))"

text \<open>\<^verbatim>\<open>notifyCompany\<close> of socket.js: emits only when \<^verbatim>\<open>io\<close> is set.\<close>

definition notifyCompany :: "event \<Rightarrow> unit action" where
  "notifyCompany ev w = (Inr (), if io w then w\<lparr>emitted := emitted w @ [ev]\<rparr> else w)"

subsection \<open>The store queries the routing core makes\<close>

definition user_findMany :: "(user \<Rightarrow> bool) \<Rightarrow> user list action" where
  "user_findMany P = collaborator_call (\<lambda>w. (Inr (filter P (users w)), w))"

text \<open>
  \<^verbatim>\<open>user.findMany\<close> with \<^verbatim>\<open>include: { agents: { where: { isActive: true } } }\<close>: every
  user row comes with its active assignment rows. The nested \<^verbatim>\<open>conversation\<close> include
  decides which conversation object is attached to an assignment row; it drops no row.
\<close>

definition user_findMany_agents ::
    "(user \<Rightarrow> bool) \<Rightarrow> (user \<times> conversationAgent list) list action" where
  "user_findMany_agents P = collaborator_call (\<lambda>w.
     (Inr (map (\<lambda>u. (u, filter (\<lambda>a. ca_userId a = user_id u \<and> ca_isActive a)
                            (conversationAgents w)))
               (filter P (users w))), w))"

text \<open>\<^verbatim>\<open>company.findUnique\<close> with its active chatbots included; \<open>None\<close> is \<^verbatim>\<open>null\<close>.\<close>

definition company_findUnique_chatbots :: "ident \<Rightarrow> (company \<times> chatbot list) option action" where
  "company_findUnique_chatbots cid = collaborator_call (\<lambda>w.
     (Inr (map_option
             (\<lambda>c. (c, filter (\<lambda>b. bot_companyId b = company_id c \<and> bot_isActive b) (chatbots w)))
             (find (\<lambda>c. company_id c = cid) (companies w))), w))"

definition chatbot_findFirst :: "(chatbot \<Rightarrow> bool) \<Rightarrow> chatbot option action" where
  "chatbot_findFirst P = collaborator_call (\<lambda>w. (Inr (find P (chatbots w)), w))"

definition conversationAgent_findFirst ::
    "(conversationAgent \<Rightarrow> bool) \<Rightarrow> conversationAgent option action" where
  "conversationAgent_findFirst P =
     collaborator_call (\<lambda>w. (Inr (find P (conversationAgents w)), w))"

definition conversationAgent_create :: "conversationAgent \<Rightarrow> conversationAgent action" where
  "conversationAgent_create row = collaborator_call (\<lambda>w.
     (Inr row, w\<lparr>conversationAgents := conversationAgents w @ [row]\<rparr>))"

definition conversationAgent_updateMany ::
    "(conversationAgent \<Rightarrow> bool) \<Rightarrow> (conversationAgent \<Rightarrow> conversationAgent) \<Rightarrow> unit action" where
  "conversationAgent_updateMany P f = collaborator_call (\<lambda>w.
     (Inr (), w\<lparr>conversationAgents := map (\<lambda>a. if P a then f a else a) (conversationAgents w)\<rparr>))"

definition conversation_findFirst :: "(conversation \<Rightarrow> bool) \<Rightarrow> conversation option action" where
  "conversation_findFirst P = collaborator_call (\<lambda>w. (Inr (find P (conversations w)), w))"

definition conversation_create :: "conversation \<Rightarrow> conversation action" where
  "conversation_create row = collaborator_call (\<lambda>w.
     (Inr row, w\<lparr>conversations := conversations w @ [row]\<rparr>))"

text \<open>
  \<^verbatim>\<open>conversation.update({ where: { id }, data })\<close>: the store throws when no row has
  the id; otherwise the row with that id is rewritten.
\<close>

definition conversation_update :: "ident \<Rightarrow> (conversation \<Rightarrow> conversation) \<Rightarrow> unit action" where
  "conversation_update cid f = collaborator_call (\<lambda>w.
     if list_ex (\<lambda>c. conv_id c = cid) (conversations w)
     then (Inr (), w\<lparr>conversations :=
                        map (\<lambda>c. if conv_id c = cid then f c else c) (conversations w)\<rparr>)
     else (Inl RecordNotFound, w))"

definition message_findMany :: "(message \<Rightarrow> bool) \<Rightarrow> nat \<Rightarrow> message list action" where
  "message_findMany P n = collaborator_call (\<lambda>w. (Inr (take n (rev (filter P (messages w)))), w))"

definition message_create :: "message \<Rightarrow> message action" where
  "message_create row = collaborator_call (\<lambda>w. (Inr row, w\<lparr>messages := messages w @ [row]\<rparr>))"

text \<open>
  \<^verbatim>\<open>whatsappService.sendMessage\<close>: it returns on a delivered message; otherwise it
  gives the error to \<^verbatim>\<open>logger.error\<close> and throws it again.
\<close>

definition whatsapp_sendMessage :: "ident \<Rightarrow> string \<Rightarrow> string \<Rightarrow> unit action" where
  "whatsapp_sendMessage account phone content =
     try_catch
       (collaborator_call (\<lambda>w.
          (Inr (), w\<lparr>outbox := outbox w @ [(account, phone, content)]\<rparr>)))
       (\<lambda>error. bind_io (log_error error) (\<lambda>_. throw_io error))"

section \<open>Helpers (utils/helpers.js) and JavaScript strings\<close>

text \<open>
  A JavaScript string is modelled as a \<open>string\<close> whose characters are the code units
  \<^verbatim>\<open>U+0000\<close> to \<^verbatim>\<open>U+00FF\<close>; the accented letters of the source are written by
  their code. \<^verbatim>\<open>toLowerCase\<close> on that range maps \<^verbatim>\<open>A-Z\<close> and the capital
  letters \<^verbatim>\<open>U+00C0-U+00DE\<close> (without the multiplication sign \<^verbatim>\<open>U+00D7\<close>) 32 places up.
\<close>

definition lower_char :: "char \<Rightarrow> char" where
  "lower_char c =
     (let n = (of_char c :: nat)
      in if (65 \<le> n \<and> n \<le> 90) \<or> (192 \<le> n \<and> n \<le> 222 \<and> n \<noteq> 215)
         then char_of (n + 32) else c)"

definition toLowerCase :: "string \<Rightarrow> string" where
  "toLowerCase s = map lower_char s"

fun startsWith :: "string \<Rightarrow> string \<Rightarrow> bool" where
  "startsWith s [] = True"
| "startsWith [] (k # ks) = False"
| "startsWith (c # cs) (k # ks) = (c = k \<and> startsWith cs ks)"

text \<open>\<^verbatim>\<open>s.includes(k)\<close>: \<open>k\<close> occurs in \<open>s\<close> as a contiguous run.\<close>

fun includes_str :: "string \<Rightarrow> string \<Rightarrow> bool" where
  "includes_str [] k = (k = [])"
| "includes_str (c # cs) k = (startsWith (c # cs) k \<or> includes_str cs k)"

text \<open>
  The reading of the wall clock that \<^verbatim>\<open>isBusinessHours\<close> takes from
  \<^verbatim>\<open>Intl.DateTimeFormat('pt-BR', ...)\<close>: the long weekday name and the hour.
\<close>

record wall_clock =
  clock_weekday :: string
  clock_hour :: nat

definition sabado :: string where
  "sabado = ''s'' @ [CHR 0xE1] @ ''bado''"

definition isBusinessHours :: "wall_clock \<Rightarrow> bool" where
  "isBusinessHours now =
     (let isWeekday = clock_weekday now \<notin> set [sabado, ''domingo''];
          isBusinessHour = (9 \<le> clock_hour now \<and> clock_hour now < 18)
      in isWeekday \<and> isBusinessHour)"

section \<open>Message processor (messageProcessor.js)\<close>

text \<open>
  The methods are embedded as called on the exported instance. The \<^verbatim>\<open>conversation\<close>
  argument is the object the caller loaded: its id, its company and, when the caller
  included it, its contact.
\<close>

record contact =
  contact_name :: string
  contact_phone :: string

record conversation_arg =
  arg_id :: ident
  arg_companyId :: ident
  arg_contact :: "contact option"

definition transferKeywords :: "string list" where
  "transferKeywords =
     [''transferir'', ''atendente'', ''humano'', ''supervisor'', ''gerente'',
      ''reclama'' @ [CHR 0xE7, CHR 0xE3] @ ''o'', ''urgente'', ''problema grave'']"

definition shouldTransferToAgent :: "string \<Rightarrow> string \<Rightarrow> bool" where
  "shouldTransferToAgent response userMessage =
     (let responseText = toLowerCase response;
          userText = toLowerCase userMessage
      in list_ex (\<lambda>keyword. includes_str responseText keyword \<or> includes_str userText keyword)
           transferKeywords)"

datatype bot_action = Schedule | Quote

definition extractActions :: "string \<Rightarrow> bot_action list option" where
  "extractActions response =
     (let actions = (if includes_str response ''[AGENDAR]'' then [Schedule] else [])
                  @ (if includes_str response ''[COTACAO]'' then [Quote] else [])
      in if length actions > 0 then Some actions else None)"

record ai_response =
  resp_message :: string
  resp_shouldTransferToAgent :: bool
  resp_actions :: "bot_action list option"

record ai_context =
  clientName :: string
  clientPhone :: string
  conversationHistory :: "string list"

text \<open>\<^verbatim>\<open>conversation.contact.name\<close> is a \<^verbatim>\<open>TypeError\<close> when the contact was not loaded.\<close>

definition buildAIContext :: "conversation_arg \<Rightarrow> message list \<Rightarrow> ai_context action" where
  "buildAIContext conversation recentMessages =
     (case arg_contact conversation of
        None \<Rightarrow> throw_io TypeError
      | Some c \<Rightarrow> return_io
          \<lparr>clientName = (if contact_name c = [] then ''Cliente'' else contact_name c),
           clientPhone = contact_phone c,
           conversationHistory =
             map (\<lambda>m. (if msg_outbound m then ''Bot: '' else ''Cliente: '') @ msg_content m)
                 (rev recentMessages)\<rparr>)"

definition fallback_reply :: string where
  "fallback_reply =
     ''Desculpe, estou com dificuldades t'' @ [CHR 0xE9] @ ''cnicas. Vou transferir voc''
       @ [CHR 0xEA] @ '' para um de nossos atendentes.''"

text \<open>
  The completion service is called once; \<open>aiReply\<close> is what that call gives:
  \<open>Some\<close> text, or \<open>None\<close> when the call throws.
\<close>

definition generateAIResponse :: "string \<Rightarrow> ai_context \<Rightarrow> string option \<Rightarrow> ai_response action" where
  "generateAIResponse userMessage context aiReply =
     try_catch
       (case aiReply of
          None \<Rightarrow> throw_io CollaboratorError
        | Some response \<Rightarrow> return_io
            \<lparr>resp_message = response,
             resp_shouldTransferToAgent = shouldTransferToAgent response userMessage,
             resp_actions = extractActions response\<rparr>)
       (\<lambda>error. bind_io (log_error error) (\<lambda>_. return_io
            \<lparr>resp_message = fallback_reply,
             resp_shouldTransferToAgent = True,
             resp_actions = None\<rparr>))"

definition isConversationAssigned :: "ident \<Rightarrow> bool action" where
  "isConversationAssigned conversationId =
     bind_io (conversationAgent_findFirst
                (\<lambda>a. ca_conversationId a = conversationId \<and> ca_isActive a))
       (\<lambda>assignment. return_io (assignment \<noteq> None))"

definition shouldUseChatbot :: "conversation_arg \<Rightarrow> wall_clock \<Rightarrow> bool action" where
  "shouldUseChatbot conversation now =
     try_catch
       (bind_io (user_findMany (\<lambda>u. user_companyId u = arg_companyId conversation \<and> isOnline u
                     \<and> user_role u \<in> set [AGENT, MANAGER, ADMIN]
                     \<and> user_status u = ACTIVE)) (\<lambda>onlineAgents.
        bind_io (company_findUnique_chatbots (arg_companyId conversation)) (\<lambda>company.
        case company of
          None \<Rightarrow> throw_io TypeError
        | Some (_, bots) \<Rightarrow>
            (let hasActiveChatbot = (length bots > 0)
             in bind_io (isConversationAssigned (arg_id conversation)) (\<lambda>assigned.
                  (let isUnassigned = \<not> assigned
                   in return_io (hasActiveChatbot \<and>
                        (length onlineAgents = 0 \<or> \<not> isBusinessHours now \<or> isUnassigned))))))))
       (\<lambda>error. bind_io (log_error error) (\<lambda>_. return_io False))"

text \<open>
  \<^verbatim>\<open>agents.reduce((prev, current) => ...)\<close> with no initial value, on the non-empty
  list the guard before it leaves: the first element starts the fold.
\<close>

definition fewer_agents ::
    "user \<times> conversationAgent list \<Rightarrow> user \<times> conversationAgent list
       \<Rightarrow> user \<times> conversationAgent list" where
  "fewer_agents prev current = (if length (snd prev) < length (snd current) then prev else current)"

definition findAvailableAgent :: "ident \<Rightarrow> (user \<times> conversationAgent list) option action" where
  "findAvailableAgent companyId =
     bind_io (user_findMany_agents (\<lambda>u. user_companyId u = companyId \<and> isOnline u
                 \<and> user_status u = ACTIVE \<and> user_role u \<in> set [AGENT, MANAGER]))
       (\<lambda>agents. case agents of
                    [] \<Rightarrow> return_io None
                  | a # rest \<Rightarrow> return_io (Some (foldl fewer_agents a rest)))"

definition assignToAgent :: "conversation_arg \<Rightarrow> unit action" where
  "assignToAgent conversation =
     try_catch
       (bind_io (findAvailableAgent (arg_companyId conversation)) (\<lambda>availableAgent.
        case availableAgent of
          Some (agent, _) \<Rightarrow>
            bind_io (conversationAgent_create
                       \<lparr>ca_userId = user_id agent,
                        ca_conversationId = arg_id conversation,
                        ca_isActive = True\<rparr>) (\<lambda>_.
            bind_io (conversation_update (arg_id conversation) (\<lambda>c. c\<lparr>conv_status := OPEN\<rparr>)) (\<lambda>_.
            notifyCompany (ConversationAssigned (arg_companyId conversation)
                             (arg_id conversation) (user_id agent))))
        | None \<Rightarrow>
            bind_io (conversation_update (arg_id conversation) (\<lambda>c. c\<lparr>conv_status := PENDING\<rparr>)) (\<lambda>_.
            notifyCompany (ConversationPending (arg_companyId conversation) (arg_id conversation)))))
       (\<lambda>error. log_error error)"

definition sendBotMessage :: "conversation_arg \<Rightarrow> string \<Rightarrow> ident \<Rightarrow> unit action" where
  "sendBotMessage conversation content whatsappAccountId =
     try_catch
       (bind_io (message_create
                   \<lparr>msg_content = content,
                    msg_conversationId = arg_id conversation,
                    msg_outbound = True\<rparr>) (\<lambda>_.
        case arg_contact conversation of
          None \<Rightarrow> throw_io TypeError
        | Some c \<Rightarrow>
            bind_io (whatsapp_sendMessage whatsappAccountId (contact_phone c) content) (\<lambda>_.
            notifyCompany (MessageNew (arg_companyId conversation) (arg_id conversation)))))
       (\<lambda>error. log_error error)"

text \<open>
  \<^verbatim>\<open>scheduleAppointment\<close> and \<^verbatim>\<open>generateQuote\<close> only write an information line to
  the log, which the world does not keep.
\<close>

definition scheduleAppointment :: "conversation_arg \<Rightarrow> unit action" where
  "scheduleAppointment conversation = return_io ()"

definition generateQuote :: "conversation_arg \<Rightarrow> unit action" where
  "generateQuote conversation = return_io ()"

fun executeActions :: "bot_action list \<Rightarrow> conversation_arg \<Rightarrow> unit action" where
  "executeActions [] conversation = return_io ()"
| "executeActions (a # as) conversation =
     bind_io (try_catch
                (case a of
                   Schedule \<Rightarrow> scheduleAppointment conversation
                 | Quote \<Rightarrow> generateQuote conversation)
                (\<lambda>error. log_error error))
       (\<lambda>_. executeActions as conversation)"

definition processChatbotResponse ::
    "string \<Rightarrow> conversation_arg \<Rightarrow> ident \<Rightarrow> string option \<Rightarrow> unit action" where
  "processChatbotResponse content conversation whatsappAccountId aiReply =
     try_catch
       (bind_io (message_findMany (\<lambda>m. msg_conversationId m = arg_id conversation) 10)
          (\<lambda>recentMessages.
        bind_io (chatbot_findFirst
                   (\<lambda>b. bot_companyId b = arg_companyId conversation \<and> bot_isActive b)) (\<lambda>chatbot.
        case chatbot of
          None \<Rightarrow> assignToAgent conversation
        | Some _ \<Rightarrow>
            bind_io (buildAIContext conversation recentMessages) (\<lambda>context.
            bind_io (generateAIResponse content context aiReply) (\<lambda>aiResponse.
            if resp_shouldTransferToAgent aiResponse
            then assignToAgent conversation
            else bind_io (sendBotMessage conversation (resp_message aiResponse) whatsappAccountId)
                   (\<lambda>_. case resp_actions aiResponse of
                           Some actions \<Rightarrow> executeActions actions conversation
                         | None \<Rightarrow> return_io ()))))))
       (\<lambda>error. bind_io (log_error error) (\<lambda>_. assignToAgent conversation))"

text \<open>
  \<^verbatim>\<open>processIncomingMessage\<close>: the early \<^verbatim>\<open>return\<close> stands inside the \<^verbatim>\<open>try\<close>, so
  the \<^verbatim>\<open>finally\<close> block runs on that path too. The promise never rejects; the result
  is the world the call leaves.
\<close>

definition processIncomingMessage ::
    "string \<Rightarrow> conversation_arg \<Rightarrow> ident \<Rightarrow> wall_clock \<Rightarrow> string option \<Rightarrow> world \<Rightarrow> world" where
  "processIncomingMessage content conversation whatsappAccountId now aiReply w =
     (let w' =
        (if arg_id conversation \<in> processingQueue w then w
         else snd (try_catch
                     (bind_io (shouldUseChatbot conversation now) (\<lambda>shouldUseBot.
                        if shouldUseBot
                        then processChatbotResponse content conversation whatsappAccountId aiReply
                        else assignToAgent conversation))
                     (\<lambda>error. log_error error)
                     (w\<lparr>processingQueue := insert (arg_id conversation) (processingQueue w)\<rparr>)))
      in w'\<lparr>processingQueue := processingQueue w' - {arg_id conversation}\<rparr>)"

section \<open>Manual assignment (routes/conversations.js, socket.js)\<close>

definition user_findUnique :: "(user \<Rightarrow> bool) \<Rightarrow> user option action" where
  "user_findUnique P = collaborator_call (\<lambda>w. (Inr (find P (users w)), w))"

text \<open>The replies of the handler: 200, 404 for the conversation or for the agent, 500.\<close>

datatype http_response = Ok_200 | ConversationNotFound_404 | AgentNotFound_404 | Error_500

text \<open>
  \<^verbatim>\<open>POST /conversations/:id/assign\<close> for the authenticated user \<open>requester\<close>;
  \<open>agentId\<close> is the field of the request body (\<open>None\<close> when absent). Prior
  assignments are deactivated before the new one is created. The handler's catch
  writes to the console, not to \<^verbatim>\<open>logger.error\<close>, and answers 500.
\<close>

definition assign_route :: "user \<Rightarrow> ident \<Rightarrow> ident option \<Rightarrow> http_response action" where
  "assign_route requester conversationId agentId =
     try_catch
       (bind_io (conversation_findFirst
                   (\<lambda>c. conv_id c = conversationId \<and> conv_companyId c = user_companyId requester))
          (\<lambda>conversation.
        case conversation of
          None \<Rightarrow> return_io ConversationNotFound_404
        | Some _ \<Rightarrow>
            bind_io (user_findUnique
                       (\<lambda>u. user_id u = (case agentId of
                                            Some a \<Rightarrow> if truthy a then a else user_id requester
                                          | None \<Rightarrow> user_id requester)
                            \<and> user_companyId u = user_companyId requester
                            \<and> user_status u = ACTIVE)) (\<lambda>agent.
            case agent of
              None \<Rightarrow> return_io AgentNotFound_404
            | Some a \<Rightarrow>
                bind_io (conversationAgent_updateMany
                           (\<lambda>r. ca_conversationId r = conversationId)
                           (\<lambda>r. r\<lparr>ca_isActive := False\<rparr>)) (\<lambda>_.
                bind_io (conversationAgent_create
                           \<lparr>ca_userId = user_id a, ca_conversationId = conversationId,
                            ca_isActive = True\<rparr>) (\<lambda>_.
                bind_io (conversation_update conversationId (\<lambda>c. c\<lparr>conv_status := OPEN\<rparr>)) (\<lambda>_.
                bind_io (notifyCompany (ConversationAssigned (user_companyId requester)
                                          conversationId (user_id a))) (\<lambda>_.
                return_io Ok_200)))))))
       (\<lambda>error. return_io Error_500)"

text \<open>What the handler emits back on the socket: an error event or \<^verbatim>\<open>conversation:taken\<close>.\<close>

datatype socket_reply = TakeNotFound | TakeAlreadyAssigned | TakeFailed | ConversationTaken ident

text \<open>
  The \<^verbatim>\<open>conversation:take\<close> handler of the socket of \<open>requester\<close>: it refuses a
  conversation that has an active assignment. Its broadcast goes out on the socket
  itself.
\<close>

definition conversation_take :: "user \<Rightarrow> ident \<Rightarrow> socket_reply action" where
  "conversation_take requester conversationId =
     try_catch
       (bind_io (collaborator_call (\<lambda>w.
                   (Inr (map_option
                           (\<lambda>c. (c, filter (\<lambda>r. ca_conversationId r = conv_id c \<and> ca_isActive r)
                                       (conversationAgents w)))
                           (find (\<lambda>c. conv_id c = conversationId
                                       \<and> conv_companyId c = user_companyId requester)
                              (conversations w))), w)))
          (\<lambda>conversation.
        case conversation of
          None \<Rightarrow> return_io TakeNotFound
        | Some (_, agents) \<Rightarrow>
            if length agents > 0 then return_io TakeAlreadyAssigned
            else
              bind_io (conversationAgent_create
                         \<lparr>ca_userId = user_id requester, ca_conversationId = conversationId,
                          ca_isActive = True\<rparr>) (\<lambda>_.
              bind_io (conversation_update conversationId (\<lambda>c. c\<lparr>conv_status := OPEN\<rparr>)) (\<lambda>_.
              bind_io (\<lambda>w. (Inr (), w\<lparr>emitted := emitted w @
                                [ConversationAssigned (user_companyId requester) conversationId
                                   (user_id requester)]\<rparr>)) (\<lambda>_.
              return_io (ConversationTaken conversationId))))))
       (\<lambda>error. bind_io (log_error error) (\<lambda>_. return_io TakeFailed))"

section \<open>Find or create the active conversation (whatsapp.js, omnichannelService.js)\<close>

text \<open>
  Both services look for the first conversation of the contact and company whose
  status is OPEN or PENDING and create one when there is none. \<open>newId\<close> is the id the
  store gives the row if one is created.
\<close>

definition is_active_for :: "ident \<Rightarrow> ident \<Rightarrow> conversation \<Rightarrow> bool" where
  "is_active_for contactId companyId c =
     (conv_contactId c = contactId \<and> conv_companyId c = companyId
      \<and> conv_status c \<in> set [OPEN, PENDING])"

text \<open>\<^verbatim>\<open>WhatsAppService.handleIncomingMessage\<close>, the part that finds or creates the conversation.\<close>

definition whatsapp_findOrCreate :: "ident \<Rightarrow> ident \<Rightarrow> ident \<Rightarrow> ident \<Rightarrow> conversation action" where
  "whatsapp_findOrCreate newId contactId companyId accountId =
     bind_io (conversation_findFirst (is_active_for contactId companyId)) (\<lambda>found.
       case found of
         Some conversation \<Rightarrow> return_io conversation
       | None \<Rightarrow> conversation_create
           \<lparr>conv_id = newId, conv_contactId = contactId, conv_companyId = companyId,
            conv_status = OPEN, conv_channel = ''WHATSAPP'', conv_whatsappId = Some accountId,
            meta_channels = None, meta_lastChannel = None\<rparr>)"

text \<open>
  \<^verbatim>\<open>OmnichannelService.findOrCreateUnifiedConversation\<close>. On a found conversation the
  channel is pushed onto the \<^verbatim>\<open>metadata.channels\<close> array of the object that is returned
  (when the object has one) and written to the row with \<^verbatim>\<open>lastChannel\<close>. An error is
  logged and thrown again.
\<close>

definition findOrCreateUnifiedConversation ::
    "ident \<Rightarrow> ident \<Rightarrow> string \<Rightarrow> ident \<Rightarrow> conversation action" where
  "findOrCreateUnifiedConversation newId contactId channel companyId =
     try_catch
       (bind_io (conversation_findFirst (is_active_for contactId companyId)) (\<lambda>found.
          case found of
            None \<Rightarrow> conversation_create
              \<lparr>conv_id = newId, conv_contactId = contactId, conv_companyId = companyId,
               conv_status = OPEN, conv_channel = channel, conv_whatsappId = None,
               meta_channels = Some [channel], meta_lastChannel = None\<rparr>
          | Some conversation \<Rightarrow>
              (let channels = (case meta_channels conversation of Some cs \<Rightarrow> cs | None \<Rightarrow> [])
               in if channel \<notin> set channels
                  then bind_io (conversation_update (conv_id conversation)
                                  (\<lambda>c. c\<lparr>meta_channels := Some (channels @ [channel]),
                                         meta_lastChannel := Some channel\<rparr>))
                         (\<lambda>_. return_io
                                 (case meta_channels conversation of
                                    Some cs \<Rightarrow> conversation\<lparr>meta_channels := Some (cs @ [channel])\<rparr>
                                  | None \<Rightarrow> conversation))
                  else return_io conversation)))
       (\<lambda>error. bind_io (log_error error) (\<lambda>_. throw_io error))"

text \<open>The ids of the OPEN or PENDING conversations of a contact and company, in store order.\<close>

definition active_ids :: "world \<Rightarrow> ident \<Rightarrow> ident \<Rightarrow> ident list" where
  "active_ids w contactId companyId =
     map conv_id (filter (is_active_for contactId companyId) (conversations w))"

text \<open>The status of the conversation a find-or-create call returns.\<close>

definition returned_status :: "(err + conversation) \<times> world \<Rightarrow> err + conv_status" where
  "returned_status r = map_sum (\<lambda>e. e) conv_status (fst r)"

subsection \<open>Handlers of inbound events that overlap\<close>

text \<open>
  Every inbound event gets an asynchronous handler of its own
  (\<^verbatim>\<open>client.on('message', async ...)\<close>), and no transaction or lock surrounds the
  find-or-create: a handler runs up to the awaited \<^verbatim>\<open>findFirst\<close>, and the part after
  it, which creates or updates the row, runs when the handler is resumed. Other
  handlers may run in between. An event carries the id a new row would get, the
  contact, the channel and the company.
\<close>

type_synonym inbound = "ident \<times> ident \<times> string \<times> ident"

datatype service = Omnichannel | WhatsApp ident

text \<open>
  Where a handler stands: before its lookup, after the lookup with what it found, or
  at the end of its find-or-create with the conversation it holds or the error thrown.
\<close>

datatype stage = Waiting | Looked "conversation option" | Finished "err + conversation"

text \<open>
  The find-or-create of each service up to the awaited \<^verbatim>\<open>findFirst\<close>, and what follows
  it. The \<^verbatim>\<open>try\<close> of \<^verbatim>\<open>findOrCreateUnifiedConversation\<close> spans both parts. In the
  WhatsApp service a thrown error ends the handler; the \<^verbatim>\<open>catch\<close> that logs it closes
  \<^verbatim>\<open>handleIncomingMessage\<close> as a whole and is not part of the find-or-create.
\<close>

definition lookup_conversation :: "service \<Rightarrow> inbound \<Rightarrow> conversation option action" where
  "lookup_conversation service event =
     (case event of (newId, contactId, channel, companyId) \<Rightarrow>
        (case service of
           WhatsApp accountId \<Rightarrow> conversation_findFirst (is_active_for contactId companyId)
         | Omnichannel \<Rightarrow>
             try_catch (conversation_findFirst (is_active_for contactId companyId))
               (\<lambda>error. bind_io (log_error error) (\<lambda>_. throw_io error))))"

definition settle_conversation ::
    "service \<Rightarrow> inbound \<Rightarrow> conversation option \<Rightarrow> conversation action" where
  "settle_conversation service event found =
     (case event of (newId, contactId, channel, companyId) \<Rightarrow>
        (case service of
           WhatsApp accountId \<Rightarrow>
             (case found of
                Some conversation \<Rightarrow> return_io conversation
              | None \<Rightarrow> conversation_create
                  \<lparr>conv_id = newId, conv_contactId = contactId, conv_companyId = companyId,
                   conv_status = OPEN, conv_channel = ''WHATSAPP'',
                   conv_whatsappId = Some accountId,
                   meta_channels = None, meta_lastChannel = None\<rparr>)
         | Omnichannel \<Rightarrow>
             try_catch
               (case found of
                  None \<Rightarrow> conversation_create
                    \<lparr>conv_id = newId, conv_contactId = contactId, conv_companyId = companyId,
                     conv_status = OPEN, conv_channel = channel, conv_whatsappId = None,
                     meta_channels = Some [channel], meta_lastChannel = None\<rparr>
                | Some conversation \<Rightarrow>
                    (let channels = (case meta_channels conversation of Some cs \<Rightarrow> cs | None \<Rightarrow> [])
                     in if channel \<notin> set channels
                        then bind_io (conversation_update (conv_id conversation)
                                        (\<lambda>c. c\<lparr>meta_channels := Some (channels @ [channel]),
                                               meta_lastChannel := Some channel\<rparr>))
                               (\<lambda>_. return_io
                                       (case meta_channels conversation of
                                          Some cs \<Rightarrow> conversation\<lparr>meta_channels := Some (cs @ [channel])\<rparr>
                                        | None \<Rightarrow> conversation))
                        else return_io conversation))
               (\<lambda>error. bind_io (log_error error) (\<lambda>_. throw_io error))))"

text \<open>
  One resumption of the handler of an event: the lookup, or the part after it. A
  handler that has finished stays as it is.
\<close>

definition advance :: "service \<Rightarrow> inbound \<Rightarrow> stage \<Rightarrow> world \<Rightarrow> stage \<times> world" where
  "advance service event st w =
     (case st of
        Waiting \<Rightarrow> (case lookup_conversation service event w of
                      (Inl error, w') \<Rightarrow> (Finished (Inl error), w')
                    | (Inr found, w') \<Rightarrow> (Looked found, w'))
      | Looked found \<Rightarrow> (case settle_conversation service event found w of
                           (result, w') \<Rightarrow> (Finished result, w'))
      | Finished result \<Rightarrow> (Finished result, w))"

text \<open>
  The handlers of a list of events, one stage for each. \<open>resume\<close> runs the handler of
  event \<open>i\<close> up to its next await; a schedule names the handler resumed at each
  turn.
\<close>

definition resume :: "service \<Rightarrow> inbound list \<Rightarrow> stage list \<times> world \<Rightarrow> nat \<Rightarrow> stage list \<times> world" where
  "resume service events s i =
     (case s of (stages, w) \<Rightarrow>
        if i < length events \<and> i < length stages
        then (case advance service (events ! i) (stages ! i) w of
                (st, w') \<Rightarrow> (stages[i := st], w'))
        else (stages, w))"

definition run_handlers :: "service \<Rightarrow> inbound list \<Rightarrow> nat list \<Rightarrow> world \<Rightarrow> stage list \<times> world" where
  "run_handlers service events schedule w =
     foldl (resume service events) (replicate (length events) Waiting, w) schedule"

text \<open>
  The schedule in which the handlers do not overlap: the handler of every event runs
  its lookup and then the part after it before the handler of the next event starts.
\<close>

primrec serial_from :: "nat \<Rightarrow> nat \<Rightarrow> nat list" where
  "serial_from i 0 = []"
| "serial_from i (Suc n) = i # i # serial_from (Suc i) n"

definition serial :: "nat \<Rightarrow> nat list" where
  "serial n = serial_from 0 n"

text \<open>
  An event of a given contact and company, and the id of the conversation a finished
  handler holds.
\<close>

definition from_pair :: "ident \<Rightarrow> ident \<Rightarrow> inbound \<Rightarrow> bool" where
  "from_pair contactId companyId event =
     (case event of (newId, k, channel, co) \<Rightarrow> k = contactId \<and> co = companyId)"

definition returned_id :: "stage \<Rightarrow> ident option" where
  "returned_id st = (case st of Finished (Inr c) \<Rightarrow> Some (conv_id c) | _ \<Rightarrow> None)"

section \<open>Campaign dispatcher (campaignService.js)\<close>

datatype campaign_status = DRAFT | SCHEDULED | SENDING | SENT | CANCELLED | FAILED

record recipient =
  rcp_phone :: string
  rcp_name :: string

text \<open>The \<^verbatim>\<open>results\<close> object of a campaign; \<open>res_errors\<close> keeps the phone of each failure.\<close>

record results =
  res_total :: nat
  res_sent :: nat
  res_delivered :: nat
  res_failed :: nat
  res_errors :: "string list"

text \<open>The campaign object \<^verbatim>\<open>startCampaign\<close> read and hands to \<^verbatim>\<open>processCampaign\<close>.\<close>

record campaign =
  camp_id :: ident
  camp_companyId :: ident
  camp_recipients :: "recipient list"
  camp_results :: results

datatype campaign_event =
    CampaignStarted ident nat
  | CampaignProgress ident nat nat
  | CampaignCompleted ident results
  | CampaignFailed ident

datatype campaign_error = CampaignNotFound | AlreadySent | NoConnectedAccount | NotSending | WriteFailed

text \<open>
  What the dispatcher works on: the in-memory registry \<^verbatim>\<open>runningCampaigns\<close>, the status
  and results columns of the campaign rows, the phones \<^verbatim>\<open>whatsappService.sendMessage\<close>
  delivered to, and the calls of \<^verbatim>\<open>notifyCompany\<close>.
\<close>

record dispatch =
  runningCampaigns :: "ident set"
  stored_status :: "ident \<rightharpoonup> campaign_status"
  stored_results :: "ident \<rightharpoonup> results"
  sent_to :: "string list"
  announced :: "campaign_event list"

text \<open>
  What happens to a recipient's block: every awaited call succeeds, or one throws
  before the message is sent, or one throws after it. (\<^verbatim>\<open>sendMessage\<close> returns
  \<^verbatim>\<open>success: true\<close> or throws, so the \<^verbatim>\<open>else\<close> branch of the block is never taken.)
\<close>

datatype delivery = Delivered | ThrewBeforeSend | ThrewAfterSend

text \<open>
  The surroundings of one dispatch: the fate of each recipient, whether the progress
  write after batch \<open>k\<close> throws, and what other handlers do to the shared state while
  the dispatcher awaits the delay after batch \<open>k\<close>.
\<close>

record surroundings =
  delivery_of :: "recipient \<Rightarrow> delivery"
  write_throws :: "nat \<Rightarrow> bool"
  meanwhile :: "nat \<Rightarrow> dispatch \<Rightarrow> dispatch"

definition batchSize :: nat where
  "batchSize = 10"

definition cancelCampaign :: "ident \<Rightarrow> dispatch \<Rightarrow> (campaign_error + unit) \<times> dispatch" where
  "cancelCampaign campaignId d =
     (case stored_status d campaignId of
        None \<Rightarrow> (Inl CampaignNotFound, d)
      | Some s \<Rightarrow>
          if s \<noteq> SENDING then (Inl NotSending, d)
          else (Inr (), d\<lparr>runningCampaigns := runningCampaigns d - {campaignId},
                          stored_status := (stored_status d)(campaignId \<mapsto> CANCELLED)\<rparr>))"

definition send_one :: "surroundings \<Rightarrow> results \<times> dispatch \<Rightarrow> recipient \<Rightarrow> results \<times> dispatch" where
  "send_one env s r =
     (case s of (res, d) \<Rightarrow>
        (case delivery_of env r of
           Delivered \<Rightarrow>
             (res\<lparr>res_sent := res_sent res + 1, res_delivered := res_delivered res + 1\<rparr>,
              d\<lparr>sent_to := sent_to d @ [rcp_phone r]\<rparr>)
         | ThrewBeforeSend \<Rightarrow>
             (res\<lparr>res_failed := res_failed res + 1, res_errors := res_errors res @ [rcp_phone r]\<rparr>, d)
         | ThrewAfterSend \<Rightarrow>
             (res\<lparr>res_failed := res_failed res + 1, res_errors := res_errors res @ [rcp_phone r]\<rparr>,
              d\<lparr>sent_to := sent_to d @ [rcp_phone r]\<rparr>)))"

text \<open>
  The batch loop \<^verbatim>\<open>for (let i = 0; i < recipients.length; i += batchSize)\<close>, from
  index \<open>i\<close> on: the registry check, the batch, the progress write and notification,
  and the delay between batches.
\<close>

function process_batches ::
    "surroundings \<Rightarrow> campaign \<Rightarrow> nat \<Rightarrow> results \<Rightarrow> dispatch \<Rightarrow> (campaign_error + results) \<times> dispatch" where
  "process_batches env c i res d =
     (if i < length (camp_recipients c) then
        if camp_id c \<notin> runningCampaigns d then (Inr res, d)
        else
          (case foldl (send_one env) (res, d) (take batchSize (drop i (camp_recipients c))) of
             (res', d1) \<Rightarrow>
               if write_throws env (i div batchSize) then (Inl WriteFailed, d1)
               else
                 (let d2 = d1\<lparr>stored_results := (stored_results d1)(camp_id c \<mapsto> res'),
                              announced := announced d1 @
                                [CampaignProgress (camp_id c) (res_sent res')
                                   (length (camp_recipients c))]\<rparr>;
                      d3 = (if i + batchSize < length (camp_recipients c)
                            then meanwhile env (i div batchSize) d2 else d2)
                  in process_batches env c (i + batchSize) res' d3))
      else (Inr res, d))"
  by pat_completeness auto
termination
  by (relation "measure (\<lambda>(env, c, i, res, d). length (camp_recipients c) - i)")
     (auto simp: batchSize_def)

declare process_batches.simps [simp del]

definition processCampaign :: "surroundings \<Rightarrow> campaign \<Rightarrow> dispatch \<Rightarrow> dispatch" where
  "processCampaign env c d =
     (let d0 = d\<lparr>runningCampaigns := insert (camp_id c) (runningCampaigns d),
                 announced := announced d @
                   [CampaignStarted (camp_id c) (length (camp_recipients c))]\<rparr>;
          d' = (case process_batches env c 0 (camp_results c) d0 of
                  (Inr res, d1) \<Rightarrow>
                    d1\<lparr>stored_status := (stored_status d1)(camp_id c \<mapsto> SENT),
                       stored_results := (stored_results d1)(camp_id c \<mapsto> res),
                       announced := announced d1 @ [CampaignCompleted (camp_id c) res]\<rparr>
                | (Inl _, d1) \<Rightarrow>
                    d1\<lparr>stored_status := (stored_status d1)(camp_id c \<mapsto> FAILED),
                       announced := announced d1 @ [CampaignFailed (camp_id c)]\<rparr>)
      in d'\<lparr>runningCampaigns := runningCampaigns d' - {camp_id c}\<rparr>)"

text \<open>
  \<^verbatim>\<open>startCampaign\<close>; \<open>connected\<close> says whether the company has a connected WhatsApp
  account. The dispatch it starts in the background is run to its end.
\<close>

definition startCampaign ::
    "surroundings \<Rightarrow> campaign \<Rightarrow> bool \<Rightarrow> dispatch \<Rightarrow> (campaign_error + unit) \<times> dispatch" where
  "startCampaign env c connected d =
     (case stored_status d (camp_id c) of
        None \<Rightarrow> (Inl CampaignNotFound, d)
      | Some s \<Rightarrow>
          if s = SENDING \<or> s = SENT then (Inl AlreadySent, d)
          else if \<not> connected then (Inl NoConnectedAccount, d)
          else (Inr (), processCampaign env c
                          (d\<lparr>stored_status := (stored_status d)(camp_id c \<mapsto> SENDING)\<rparr>)))"

section \<open>Notions of the specification\<close>

text \<open>
  The quantities the routing rule is stated with, read off the tables directly: the
  company exists and has an active chatbot; the number of the company's online, active
  users with role agent, manager or administrator; no active assignment of the
  conversation.
\<close>

definition hasActiveChatbot :: "world \<Rightarrow> ident \<Rightarrow> bool" where
  "hasActiveChatbot w companyId =
     ((\<exists>c \<in> set (companies w). company_id c = companyId)
      \<and> (\<exists>b \<in> set (chatbots w). bot_companyId b = companyId \<and> bot_isActive b))"

definition onlineAgentCount :: "world \<Rightarrow> ident \<Rightarrow> nat" where
  "onlineAgentCount w companyId =
     length (filter (\<lambda>u. user_companyId u = companyId \<and> isOnline u \<and> user_status u = ACTIVE
                         \<and> (user_role u = AGENT \<or> user_role u = MANAGER \<or> user_role u = ADMIN))
               (users w))"

definition isUnassigned :: "world \<Rightarrow> ident \<Rightarrow> bool" where
  "isUnassigned w conversationId =
     (\<not> (\<exists>a \<in> set (conversationAgents w). ca_conversationId a = conversationId \<and> ca_isActive a))"

text \<open>The decision rule of the specification.\<close>

definition use_chatbot_rule :: "world \<Rightarrow> conversation_arg \<Rightarrow> wall_clock \<Rightarrow> bool" where
  "use_chatbot_rule w conversation now =
     (hasActiveChatbot w (arg_companyId conversation)
      \<and> (onlineAgentCount w (arg_companyId conversation) = 0
          \<or> \<not> isBusinessHours now
          \<or> isUnassigned w (arg_id conversation)))"

text \<open>
  The agents human routing may pick, in the order the store returns them, and the
  active assignments of a user.
\<close>

definition eligible_agent :: "ident \<Rightarrow> user \<Rightarrow> bool" where
  "eligible_agent companyId u =
     (user_companyId u = companyId \<and> isOnline u \<and> user_status u = ACTIVE
      \<and> (user_role u = AGENT \<or> user_role u = MANAGER))"

definition candidates :: "world \<Rightarrow> ident \<Rightarrow> user list" where
  "candidates w companyId = filter (eligible_agent companyId) (users w)"

definition active_assignments :: "world \<Rightarrow> user \<Rightarrow> conversationAgent list" where
  "active_assignments w u =
     filter (\<lambda>a. ca_userId a = user_id u \<and> ca_isActive a) (conversationAgents w)"

text \<open>
  The load the specification counts: the active assignments of a user whose conversation
  is a row of the store with status OPEN or PENDING.
\<close>

definition is_open_or_pending :: "world \<Rightarrow> ident \<Rightarrow> bool" where
  "is_open_or_pending w conversationId =
     list_ex (\<lambda>c. conv_id c = conversationId \<and> (conv_status c = OPEN \<or> conv_status c = PENDING))
       (conversations w)"

definition open_assignments :: "world \<Rightarrow> user \<Rightarrow> conversationAgent list" where
  "open_assignments w u =
     filter (\<lambda>a. is_open_or_pending w (ca_conversationId a)) (active_assignments w u)"

text \<open>
  Every active assignment of every candidate belongs to a conversation that is OPEN or
  PENDING: no candidate still holds an active assignment of a closed conversation.
\<close>

definition loads_agree :: "world \<Rightarrow> ident \<Rightarrow> bool" where
  "loads_agree w companyId =
     (\<forall>u \<in> set (candidates w companyId). \<forall>a \<in> set (active_assignments w u).
         is_open_or_pending w (ca_conversationId a))"

text \<open>
  Position \<open>i\<close> of \<open>cs\<close> holds a user with the fewest active assignments of OPEN or
  PENDING conversations, and every user after it has strictly more: the last of the
  least loaded.
\<close>

definition last_least_loaded :: "world \<Rightarrow> user list \<Rightarrow> nat \<Rightarrow> bool" where
  "last_least_loaded w cs i =
     (i < length cs
      \<and> (\<forall>j < length cs. length (open_assignments w (cs ! i))
                            \<le> length (open_assignments w (cs ! j)))
      \<and> (\<forall>j < length cs. i < j \<longrightarrow>
             length (open_assignments w (cs ! i)) < length (open_assignments w (cs ! j))))"

text \<open>
  What the model of the message processor computes when no lookup throws: the row
  \<^verbatim>\<open>findAvailableAgent\<close> folds out of the candidates, whether a conversation row
  exists, the status update of the row with a given id, and an emission.
\<close>

definition least_loaded :: "world \<Rightarrow> ident \<Rightarrow> (user \<times> conversationAgent list) option" where
  "least_loaded w companyId =
     (case map (\<lambda>u. (u, active_assignments w u)) (candidates w companyId) of
        [] \<Rightarrow> None
      | a # rest \<Rightarrow> Some (foldl fewer_agents a rest))"

definition conversation_exists :: "world \<Rightarrow> ident \<Rightarrow> bool" where
  "conversation_exists w cid = list_ex (\<lambda>c. conv_id c = cid) (conversations w)"

definition set_status :: "ident \<Rightarrow> conv_status \<Rightarrow> conversation list \<Rightarrow> conversation list" where
  "set_status cid st cs = map (\<lambda>c. if conv_id c = cid then c\<lparr>conv_status := st\<rparr> else c) cs"

definition emit :: "event \<Rightarrow> world \<Rightarrow> world" where
  "emit ev w = (if io w then w\<lparr>emitted := emitted w @ [ev]\<rparr> else w)"

text \<open>
  The status of a conversation and its active assignments, read off the tables.
\<close>

definition conversation_status :: "world \<Rightarrow> ident \<Rightarrow> conv_status option" where
  "conversation_status w cid = map_option conv_status (find (\<lambda>c. conv_id c = cid) (conversations w))"

definition active_of :: "world \<Rightarrow> ident \<Rightarrow> conversationAgent list" where
  "active_of w conversationId =
     filter (\<lambda>a. ca_conversationId a = conversationId \<and> ca_isActive a) (conversationAgents w)"

section \<open>Example worlds\<close>

definition agent1 :: user where
  "agent1 = \<lparr>user_id = ''agent1'', user_companyId = ''acme'', isOnline = True,
             user_role = AGENT, user_status = ACTIVE\<rparr>"

definition agent2 :: user where
  "agent2 = \<lparr>user_id = ''agent2'', user_companyId = ''acme'', isOnline = True,
             user_role = AGENT, user_status = ACTIVE\<rparr>"

definition agent3 :: user where
  "agent3 = \<lparr>user_id = ''agent3'', user_companyId = ''acme'', isOnline = True,
             user_role = MANAGER, user_status = ACTIVE\<rparr>"

definition assigned :: "ident \<Rightarrow> ident \<Rightarrow> conversationAgent" where
  "assigned userId conversationId =
     \<lparr>ca_userId = userId, ca_conversationId = conversationId, ca_isActive = True\<rparr>"

definition open_conversation :: "ident \<Rightarrow> ident \<Rightarrow> conversation" where
  "open_conversation cid contactId =
     \<lparr>conv_id = cid, conv_contactId = contactId, conv_companyId = ''acme'',
      conv_status = OPEN, conv_channel = ''WHATSAPP'', conv_whatsappId = Some ''wa1'',
      meta_channels = None, meta_lastChannel = None\<rparr>"

definition empty_world :: world where
  "empty_world =
     \<lparr>users = [], companies = [], chatbots = [], conversations = [],
      conversationAgents = [], messages = [], outbox = [], emitted = [], io = True,
      logged = [], faults = [], processingQueue = {}\<rparr>"

text \<open>Company acme with an active chatbot, one online agent and an unassigned conversation.\<close>

definition bot_world :: world where
  "bot_world = empty_world
     \<lparr>users := [agent1],
      companies := [\<lparr>company_id = ''acme''\<rparr>],
      chatbots := [\<lparr>bot_companyId = ''acme'', bot_isActive = True\<rparr>],
      conversations := [open_conversation ''c1'' ''k1'']\<rparr>"

definition c1_arg :: conversation_arg where
  "c1_arg = \<lparr>arg_id = ''c1'', arg_companyId = ''acme'', arg_contact = None\<rparr>"

definition monday_10h :: wall_clock where
  "monday_10h = \<lparr>clock_weekday = ''segunda-feira'', clock_hour = 10\<rparr>"

text \<open>
  Three online agents of acme, in id order, with 3, 2 and 2 active assignments, each of
  a conversation that is OPEN or PENDING.
\<close>

definition tie_world :: world where
  "tie_world = empty_world
     \<lparr>users := [agent1, agent2, agent3],
      companies := [\<lparr>company_id = ''acme''\<rparr>],
      conversations :=
        [open_conversation ''d1'' ''k1'', open_conversation ''d2'' ''k2'',
         open_conversation ''d3'' ''k3'', open_conversation ''d4'' ''k4'',
         (open_conversation ''d5'' ''k5'')\<lparr>conv_status := PENDING\<rparr>,
         open_conversation ''d6'' ''k6'', open_conversation ''d7'' ''k7''],
      conversationAgents :=
        [assigned ''agent1'' ''d1'', assigned ''agent1'' ''d2'', assigned ''agent1'' ''d3'',
         assigned ''agent2'' ''d4'', assigned ''agent2'' ''d5'',
         assigned ''agent3'' ''d6'', assigned ''agent3'' ''d7'']\<rparr>"

text \<open>
  Two online agents of acme: the first holds two active assignments of closed
  conversations, the second one active assignment of an open conversation.
\<close>

definition stale_world :: world where
  "stale_world = empty_world
     \<lparr>users := [agent1, agent2],
      companies := [\<lparr>company_id = ''acme''\<rparr>],
      conversations :=
        [(open_conversation ''d1'' ''k1'')\<lparr>conv_status := CLOSED\<rparr>,
         (open_conversation ''d2'' ''k2'')\<lparr>conv_status := CLOSED\<rparr>,
         open_conversation ''d3'' ''k3''],
      conversationAgents :=
        [assigned ''agent1'' ''d1'', assigned ''agent1'' ''d2'', assigned ''agent2'' ''d3'']\<rparr>"

text \<open>The id of the agent \<^verbatim>\<open>findAvailableAgent\<close> returns, if it returns one.\<close>

definition selected_agent_id :: "ident \<Rightarrow> world \<Rightarrow> ident option" where
  "selected_agent_id companyId w =
     (case fst (findAvailableAgent companyId w) of
        Inr (Some (agent, _)) \<Rightarrow> Some (user_id agent)
      | _ \<Rightarrow> None)"

text \<open>
  The conversation of \<open>c1_arg\<close> with its contact loaded, and the message of the escalation scenario.
\<close>

definition ana_arg :: conversation_arg where
  "ana_arg = \<lparr>arg_id = ''c1'', arg_companyId = ''acme'',
              arg_contact = Some \<lparr>contact_name = ''Ana'', contact_phone = ''5511999999999''\<rparr>\<rparr>"

definition escalation_text :: string where
  "escalation_text = ''quero falar com um atendente humano''"




definition busy_world :: world where
  "busy_world = bot_world\<lparr>processingQueue := {''c1''}\<rparr>"

text \<open>
  Company acme without a chatbot; conversation c1 is assigned to agent 1, and agent 2
  is online with no assignment.
\<close>

definition assigned_world :: world where
  "assigned_world = empty_world
     \<lparr>users := [agent1, agent2],
      companies := [\<lparr>company_id = ''acme''\<rparr>],
      conversations := [open_conversation ''c1'' ''k1''],
      conversationAgents := [assigned ''agent1'' ''c1'']\<rparr>"

text \<open>
  Two events of contact k1 with an event of another contact between them.
\<close>

definition three_events :: "inbound list" where
  "three_events =
     [(''n1'', ''k1'', ''WHATSAPP'', ''acme''),
      (''n2'', ''k9'', ''EMAIL'', ''acme''),
      (''n3'', ''k1'', ''INSTAGRAM'', ''acme'')]"

text \<open>Two events of contact k1.\<close>

definition two_events :: "inbound list" where
  "two_events = [(''n1'', ''k1'', ''WHATSAPP'', ''acme''), (''n2'', ''k1'', ''WHATSAPP'', ''acme'')]"

text \<open>
  A campaign of 25 recipients that all receive their message, cancelled by another
  handler during the delay after the first batch.
\<close>

definition zero_results :: results where
  "zero_results = \<lparr>res_total = 25, res_sent = 0, res_delivered = 0, res_failed = 0,
                    res_errors = []\<rparr>"

definition campaign25 :: campaign where
  "campaign25 =
     \<lparr>camp_id = ''camp1'', camp_companyId = ''acme'',
      camp_recipients = replicate 25 \<lparr>rcp_phone = ''5511999999999'', rcp_name = ''Ana''\<rparr>,
      camp_results = zero_results\<rparr>"

definition cancel_after_first_batch :: surroundings where
  "cancel_after_first_batch =
     \<lparr>delivery_of = (\<lambda>_. Delivered),
      write_throws = (\<lambda>_. False),
      meanwhile = (\<lambda>k d. if k = 0 then snd (cancelCampaign ''camp1'' d) else d)\<rparr>"

definition draft_dispatch :: dispatch where
  "draft_dispatch =
     \<lparr>runningCampaigns = {}, stored_status = [''camp1'' \<mapsto> DRAFT],
      stored_results = [''camp1'' \<mapsto> zero_results], sent_to = [], announced = []\<rparr>"

definition sending_dispatch :: dispatch where
  "sending_dispatch = draft_dispatch\<lparr>stored_status := [''camp1'' \<mapsto> SENDING]\<rparr>"

section \<open>Properties of the presence manager\<close>

lemma isUserOnline_addUser: "isUserOnline u (addUser u s pm)"
  by (simp add: isUserOnline_def addUser_def Let_def split: option.splits)

lemma userSockets_addUser:
  "userSockets (addUser u s pm) u =
     Some (insert s (case userSockets pm u of None \<Rightarrow> {} | Some S \<Rightarrow> S))"
  by (simp add: addUser_def Let_def split: option.splits)

lemma socketUsers_addUser: "socketUsers (addUser u s pm) = (socketUsers pm)(s \<mapsto> u)"
  by (simp add: addUser_def Let_def)

text \<open>
  Claim C9. An agent with two connections stays online when the first one is
  removed and goes offline only when the last one is removed. The agent starts with no
  connection, its id is a non-empty string and the two connection ids differ.
\<close>

theorem presence_two_connections:
  assumes off: "\<not> isUserOnline a pm"
      and id: "a \<noteq> []"
      and ne: "c1 \<noteq> c2"
  shows "isUserOnline a (addUser a c2 (addUser a c1 pm))
       \<and> fst (removeUser c1 (addUser a c2 (addUser a c1 pm))) = Some a
       \<and> isUserOnline a (snd (removeUser c1 (addUser a c2 (addUser a c1 pm))))
       \<and> fst (removeUser c2 (snd (removeUser c1 (addUser a c2 (addUser a c1 pm))))) = Some a
       \<and> \<not> isUserOnline a
             (snd (removeUser c2 (snd (removeUser c1 (addUser a c2 (addUser a c1 pm))))))"
proof -
  let ?p2 = "addUser a c2 (addUser a c1 pm)"
  have S0: "(case userSockets pm a of None \<Rightarrow> {} | Some S \<Rightarrow> S) = {}"
    using off by (simp add: isUserOnline_def split: option.splits)
  have us2: "userSockets ?p2 a = Some {c2, c1}"
    by (simp add: userSockets_addUser S0)
  have su2: "socketUsers ?p2 = (socketUsers pm)(c1 \<mapsto> a, c2 \<mapsto> a)"
    by (simp add: socketUsers_addUser)
  have r1: "removeUser c1 ?p2 =
      (Some a, ?p2\<lparr>userSockets := (userSockets ?p2)(a \<mapsto> {c2}),
                    socketUsers := (socketUsers ?p2)(c1 := None)\<rparr>)"
  proof -
    have d: "{c2, c1} - {c1} = {c2}" using ne by auto
    show ?thesis
      using id ne by (simp add: removeUser_def us2 su2 truthy_def Let_def d)
  qed
  let ?p3 = "snd (removeUser c1 ?p2)"
  have us3: "userSockets ?p3 a = Some {c2}" by (simp add: r1)
  have su3: "socketUsers ?p3 c2 = Some a" using ne by (simp add: r1 su2)
  have r2: "removeUser c2 ?p3 =
      (Some a, ?p3\<lparr>userSockets := (userSockets ?p3)(a := None),
                    socketUsers := (socketUsers ?p3)(c2 := None)\<rparr>)"
    using id by (subst removeUser_def) (simp add: us3 su3 truthy_def)
  have on2: "isUserOnline a ?p2" by (rule isUserOnline_addUser)
  have on3: "isUserOnline a ?p3" by (simp add: isUserOnline_def us3)
  have off4: "\<not> isUserOnline a (snd (removeUser c2 ?p3))"
    by (simp add: r2 isUserOnline_def)
  have f1: "fst (removeUser c1 ?p2) = Some a" by (simp add: r1)
  have f2: "fst (removeUser c2 ?p3) = Some a" by (simp add: r2)
  from on2 f1 on3 f2 off4 show ?thesis by blast
qed

theorem presence_two_connections_witness:
  "\<not> isUserOnline ''agentA'' new_presence
   \<and> isUserOnline ''agentA'' (addUser ''agentA'' ''conn2'' (addUser ''agentA'' ''conn1'' new_presence))
   \<and> isUserOnline ''agentA''
        (snd (removeUser ''conn1'' (addUser ''agentA'' ''conn2'' (addUser ''agentA'' ''conn1'' new_presence))))
   \<and> \<not> isUserOnline ''agentA''
        (snd (removeUser ''conn2''
          (snd (removeUser ''conn1'' (addUser ''agentA'' ''conn2'' (addUser ''agentA'' ''conn1'' new_presence))))))"
proof -
  have off: "\<not> isUserOnline ''agentA'' new_presence"
    by (simp add: isUserOnline_def new_presence_def)
  show ?thesis
    using off presence_two_connections [OF off, of "''conn1''" "''conn2''"] by simp
qed

section \<open>Properties of the routing decision\<close>

lemma collaborator_call_nofault: "faults w = [] \<Longrightarrow> collaborator_call f w = f w"
  by (simp add: collaborator_call_def)

lemma find_None_ex: "(find P xs = None) = (\<not> (\<exists>x \<in> set xs. P x))"
  by (auto simp: find_None_iff)

lemma shouldUseChatbot_nofault:
  assumes "faults w = []"
  shows "fst (shouldUseChatbot conversation now w) = Inr (use_chatbot_rule w conversation now)"
proof (cases "find (\<lambda>c. company_id c = arg_companyId conversation) (companies w)")
  case None
  then have "\<not> hasActiveChatbot w (arg_companyId conversation)"
    by (simp add: hasActiveChatbot_def find_None_iff)
  then show ?thesis using None assms
    by (simp add: shouldUseChatbot_def try_catch_def bind_io_def user_findMany_def
        company_findUnique_chatbots_def throw_io_def log_error_def return_io_def
        collaborator_call_nofault use_chatbot_rule_def)
next
  case (Some c)
  then have ex: "\<exists>c \<in> set (companies w). company_id c = arg_companyId conversation"
    by (auto simp: find_Some_iff)
  have cid: "company_id c = arg_companyId conversation"
    using Some by (auto simp: find_Some_iff)
  show ?thesis using Some assms ex cid
    apply (simp add: shouldUseChatbot_def try_catch_def bind_io_def user_findMany_def
        company_findUnique_chatbots_def isConversationAssigned_def
        conversationAgent_findFirst_def throw_io_def log_error_def return_io_def Let_def
        hasActiveChatbot_def onlineAgentCount_def isUnassigned_def find_None_ex
        filter_empty_conv collaborator_call_nofault use_chatbot_rule_def)
    apply (auto simp: filter_empty_conv)
    done
qed

section \<open>Properties of agent selection\<close>

lemma foldl_fewer_agents_last_min:
  "\<exists>i < length (a # rest).
      foldl fewer_agents a rest = (a # rest) ! i
      \<and> (\<forall>j < length (a # rest). length (snd ((a # rest) ! i)) \<le> length (snd ((a # rest) ! j)))
      \<and> (\<forall>j < length (a # rest). i < j \<longrightarrow>
             length (snd ((a # rest) ! i)) < length (snd ((a # rest) ! j)))"
proof (induction rest rule: rev_induct)
  case Nil
  show ?case by simp
next
  case (snoc x xs)
  define zs where "zs = a # xs"
  have ys: "a # xs @ [x] = zs @ [x]" by (simp add: zs_def)
  from snoc obtain i where i: "i < length zs"
      and res: "foldl fewer_agents a xs = zs ! i"
      and mn: "\<And>j. j < length zs \<Longrightarrow> length (snd (zs ! i)) \<le> length (snd (zs ! j))"
      and st: "\<And>j. j < length zs \<Longrightarrow> i < j \<Longrightarrow> length (snd (zs ! i)) < length (snd (zs ! j))"
    unfolding zs_def by blast
  show ?case
  proof (cases "length (snd (zs ! i)) < length (snd x)")
    case True
    have "foldl fewer_agents a (xs @ [x]) = (zs @ [x]) ! i"
      using True res i by (simp add: fewer_agents_def nth_append)
    moreover have "\<forall>j < length (zs @ [x]). length (snd ((zs @ [x]) ! i)) \<le> length (snd ((zs @ [x]) ! j))"
      using mn True i by (auto simp: nth_append less_Suc_eq)
    moreover have "\<forall>j < length (zs @ [x]). i < j \<longrightarrow>
        length (snd ((zs @ [x]) ! i)) < length (snd ((zs @ [x]) ! j))"
      using st True i by (auto simp: nth_append less_Suc_eq)
    moreover have "i < length (zs @ [x])" using i by simp
    ultimately show ?thesis unfolding ys by blast
  next
    case False
    have le: "\<And>j. j < length zs \<Longrightarrow> length (snd x) \<le> length (snd (zs ! j))"
      using False mn by (meson le_trans not_less)
    have "foldl fewer_agents a (xs @ [x]) = (zs @ [x]) ! length zs"
      using False res by (simp add: fewer_agents_def)
    moreover have "\<forall>j < length (zs @ [x]).
        length (snd ((zs @ [x]) ! length zs)) \<le> length (snd ((zs @ [x]) ! j))"
      using le by (auto simp: nth_append less_Suc_eq)
    moreover have "\<forall>j < length (zs @ [x]). length zs < j \<longrightarrow>
        length (snd ((zs @ [x]) ! length zs)) < length (snd ((zs @ [x]) ! j))"
      by simp
    moreover have "length zs < length (zs @ [x])" by simp
    ultimately show ?thesis unfolding ys by blast
  qed
qed

lemma open_assignments_agree:
  assumes "loads_agree w companyId" and "u \<in> set (candidates w companyId)"
  shows "open_assignments w u = active_assignments w u"
  using assms by (simp add: loads_agree_def open_assignments_def)

text \<open>
  Claim C5, as amended. When no store call throws and every active assignment of the
  candidates belongs to an OPEN or PENDING conversation, \<^verbatim>\<open>findAvailableAgent\<close> returns
  nothing if the company has no online, active agent or manager; otherwise it returns
  one of them with the fewest active assignments of OPEN or PENDING conversations, and
  among those tied for the fewest the one the store returned last.
\<close>

theorem findAvailableAgent_last_least_loaded:
  assumes "faults w = []" and "loads_agree w companyId"
  shows "(candidates w companyId = [] \<and> findAvailableAgent companyId w = (Inr None, w))
       \<or> (\<exists>i. last_least_loaded w (candidates w companyId) i
              \<and> findAvailableAgent companyId w =
                  (Inr (Some (candidates w companyId ! i,
                              open_assignments w (candidates w companyId ! i))), w))"
proof -
  let ?P = "\<lambda>u. user_companyId u = companyId \<and> isOnline u \<and> user_status u = ACTIVE
                 \<and> user_role u \<in> set [AGENT, MANAGER]"
  let ?cs = "candidates w companyId"
  let ?rows = "map (\<lambda>u. (u, active_assignments w u)) ?cs"
  have P: "?P = eligible_agent companyId"
    by (auto simp: eligible_agent_def fun_eq_iff)
  have q: "user_findMany_agents ?P w = (Inr ?rows, w)"
    using assms(1) unfolding P
    by (simp add: user_findMany_agents_def active_assignments_def candidates_def
        collaborator_call_nofault)
  have run: "findAvailableAgent companyId w =
      (case ?rows of [] \<Rightarrow> (Inr None, w)
                   | a # rest \<Rightarrow> (Inr (Some (foldl fewer_agents a rest)), w))"
    unfolding findAvailableAgent_def bind_io_def q
    by (simp add: return_io_def split: list.splits)
  have agree: "\<And>j. j < length ?cs \<Longrightarrow> active_assignments w (?cs ! j) = open_assignments w (?cs ! j)"
    using open_assignments_agree [OF assms(2)] by simp
  show ?thesis
  proof (cases ?rows)
    case Nil
    then show ?thesis using run by simp
  next
    case (Cons a rest)
    from foldl_fewer_agents_last_min [of a rest]
    obtain i where i: "i < length ?rows"
      and res: "foldl fewer_agents a rest = ?rows ! i"
      and mn: "\<forall>j < length ?rows. length (snd (?rows ! i)) \<le> length (snd (?rows ! j))"
      and st: "\<forall>j < length ?rows. i < j \<longrightarrow> length (snd (?rows ! i)) < length (snd (?rows ! j))"
      unfolding Cons [symmetric] by blast
    have run': "findAvailableAgent companyId w = (Inr (Some (foldl fewer_agents a rest)), w)"
      using run Cons by simp
    have nthr: "?rows ! i = (?cs ! i, open_assignments w (?cs ! i))"
      using i agree by simp
    have "findAvailableAgent companyId w = (Inr (Some (?cs ! i, open_assignments w (?cs ! i))), w)"
      unfolding run' res nthr by (rule refl)
    moreover have "last_least_loaded w ?cs i"
      using mn st i agree by (simp add: last_least_loaded_def)
    ultimately show ?thesis by blast
  qed
qed


theorem findAvailableAgent_last_least_loaded_witness:
  "faults tie_world = []
   \<and> loads_agree tie_world ''acme''
   \<and> candidates tie_world ''acme'' = [agent1, agent2, agent3]
   \<and> findAvailableAgent ''acme'' tie_world =
       (Inr (Some (agent3, [assigned ''agent3'' ''d6'', assigned ''agent3'' ''d7''])), tie_world)"
proof -
  have f: "faults tie_world = []"
    by (simp add: tie_world_def empty_world_def)
  have c: "candidates tie_world ''acme'' = [agent1, agent2, agent3]"
    by (simp add: candidates_def eligible_agent_def tie_world_def empty_world_def
        agent1_def agent2_def agent3_def)
  have a: "loads_agree tie_world ''acme''"
    unfolding loads_agree_def c
    by (simp add: active_assignments_def is_open_or_pending_def tie_world_def empty_world_def
        agent1_def agent2_def agent3_def assigned_def open_conversation_def)
  have r: "findAvailableAgent ''acme'' tie_world =
       (Inr (Some (agent3, [assigned ''agent3'' ''d6'', assigned ''agent3'' ''d7''])), tie_world)"
    using findAvailableAgent_last_least_loaded [OF f a]
    by (simp add: findAvailableAgent_def user_findMany_agents_def
      collaborator_call_def bind_io_def return_io_def fewer_agents_def candidates_def
      eligible_agent_def tie_world_def empty_world_def
      agent1_def agent2_def agent3_def assigned_def)
  from f a c r show ?thesis by blast
qed

text \<open>
  Claim C5 as stated fails: with counts 3, 2 and 2 of active assignments of OPEN or
  PENDING conversations, in id order, the agent picked is the third one, not the lower
  id of the tied pair.
\<close>

theorem tie_break_counterexample:
  "map (\<lambda>u. (user_id u, length (open_assignments tie_world u))) (candidates tie_world ''acme'')
     = [(''agent1'', 3), (''agent2'', 2), (''agent3'', 2)]
   \<and> selected_agent_id ''acme'' tie_world = Some ''agent3''"
  by (simp add: selected_agent_id_def findAvailableAgent_def user_findMany_agents_def
      collaborator_call_def bind_io_def return_io_def fewer_agents_def candidates_def
      eligible_agent_def active_assignments_def open_assignments_def is_open_or_pending_def
      tie_world_def empty_world_def open_conversation_def
      agent1_def agent2_def agent3_def assigned_def)

text \<open>
  The status filter of the query sits in the nested \<^verbatim>\<open>conversation\<close> include, so it
  removes no assignment row and \<^verbatim>\<open>agents.length\<close> counts the active assignments of
  closed conversations too: an agent busy only with closed conversations loses to one
  with an open conversation.
\<close>

lemma closed_conversations_are_counted:
  "map (\<lambda>u. (user_id u, length (open_assignments stale_world u), length (active_assignments stale_world u)))
       (candidates stale_world ''acme'')
     = [(''agent1'', 0, 2), (''agent2'', 1, 1)]
   \<and> selected_agent_id ''acme'' stale_world = Some ''agent2''"
  by (simp add: selected_agent_id_def findAvailableAgent_def user_findMany_agents_def
      collaborator_call_def bind_io_def return_io_def fewer_agents_def candidates_def
      eligible_agent_def active_assignments_def open_assignments_def is_open_or_pending_def
      stale_world_def empty_world_def open_conversation_def
      agent1_def agent2_def assigned_def)

section \<open>Symbolic runs of the message processor\<close>

lemmas exec_defs =
  processChatbotResponse_def assignToAgent_def findAvailableAgent_def sendBotMessage_def
  generateAIResponse_def buildAIContext_def shouldUseChatbot_def isConversationAssigned_def
  user_findMany_def user_findMany_agents_def company_findUnique_chatbots_def
  chatbot_findFirst_def conversationAgent_findFirst_def conversationAgent_create_def
  conversation_update_def message_findMany_def message_create_def whatsapp_sendMessage_def
  notifyCompany_def collaborator_call_def try_catch_def bind_io_def return_io_def throw_io_def
  log_error_def fewer_agents_def

lemma findAvailableAgent_nofault:
  assumes "faults w = []"
  shows "findAvailableAgent companyId w = (Inr (least_loaded w companyId), w)"
proof -
  let ?P = "\<lambda>u. user_companyId u = companyId \<and> isOnline u \<and> user_status u = ACTIVE
                 \<and> user_role u \<in> set [AGENT, MANAGER]"
  have P: "?P = eligible_agent companyId"
    by (auto simp: eligible_agent_def fun_eq_iff)
  have q: "user_findMany_agents ?P w =
             (Inr (map (\<lambda>u. (u, active_assignments w u)) (candidates w companyId)), w)"
    using assms unfolding P
    by (simp add: user_findMany_agents_def active_assignments_def candidates_def
        collaborator_call_nofault)
  show ?thesis
    unfolding findAvailableAgent_def bind_io_def q least_loaded_def
    by (simp add: return_io_def split: list.splits)
qed

lemma least_loaded_Some: "candidates w cid \<noteq> [] \<Longrightarrow> \<exists>p. least_loaded w cid = Some p"
  by (cases "candidates w cid") (simp_all add: least_loaded_def)

lemma least_loaded_None: "candidates w cid = [] \<Longrightarrow> least_loaded w cid = None"
  by (simp add: least_loaded_def)



lemma assignToAgent_nofault:
  assumes "faults w = []"
  shows "assignToAgent conversation w =
     (Inr (),
      case least_loaded w (arg_companyId conversation) of
        Some (agent, rows) \<Rightarrow>
          (let w1 = w\<lparr>conversationAgents := conversationAgents w @
                        [\<lparr>ca_userId = user_id agent, ca_conversationId = arg_id conversation,
                          ca_isActive = True\<rparr>]\<rparr>
           in if conversation_exists w (arg_id conversation)
              then emit (ConversationAssigned (arg_companyId conversation)
                           (arg_id conversation) (user_id agent))
                     (w1\<lparr>conversations := set_status (arg_id conversation) OPEN (conversations w)\<rparr>)
              else w1\<lparr>logged := logged w @ [RecordNotFound]\<rparr>)
      | None \<Rightarrow>
          if conversation_exists w (arg_id conversation)
          then emit (ConversationPending (arg_companyId conversation) (arg_id conversation))
                 (w\<lparr>conversations := set_status (arg_id conversation) PENDING (conversations w)\<rparr>)
          else w\<lparr>logged := logged w @ [RecordNotFound]\<rparr>)"
  using assms
  by (simp add: assignToAgent_def try_catch_def bind_io_def findAvailableAgent_nofault
      conversationAgent_create_def conversation_update_def notifyCompany_def log_error_def
      collaborator_call_nofault conversation_exists_def set_status_def emit_def Let_def
      split: option.splits prod.splits)



lemma find_set_status:
  "list_ex (\<lambda>c. conv_id c = cid) cs \<Longrightarrow>
     map_option conv_status (find (\<lambda>c. conv_id c = cid) (set_status cid st cs)) = Some st"
  by (induction cs) (auto simp: set_status_def)

lemma conversation_status_set:
  assumes "conversations w' = set_status cid st (conversations w)"
      and "conversation_exists w cid"
  shows "conversation_status w' cid = Some st"
  using assms find_set_status [of cid "conversations w" st]
  by (simp add: conversation_status_def conversation_exists_def)

lemma emit_tables:
  "conversations (emit ev w) = conversations w"
  "conversationAgents (emit ev w) = conversationAgents w"
  by (simp_all add: emit_def)

lemma assignToAgent_returns: "fst (assignToAgent conversation w) = Inr ()"
  by (simp add: assignToAgent_def try_catch_def log_error_def split: prod.splits sum.splits)

lemma case_assignToAgent:
  "(case assignToAgent conversation w of (Inl e, w') \<Rightarrow> f e w' | (Inr x, w') \<Rightarrow> g x w')
     = g () (snd (assignToAgent conversation w))"
  using assignToAgent_returns [of conversation w]
  by (cases "assignToAgent conversation w") auto

lemma assignToAgent_outcome:
  assumes nf: "faults w = []" and ex: "conversation_exists w (arg_id conversation)"
  shows "(conversation_status (snd (assignToAgent conversation w)) (arg_id conversation) = Some OPEN
          \<and> \<not> isUnassigned (snd (assignToAgent conversation w)) (arg_id conversation))
       \<or> conversation_status (snd (assignToAgent conversation w)) (arg_id conversation) = Some PENDING"
proof (cases "least_loaded w (arg_companyId conversation)")
  case None
  have "conversations (snd (assignToAgent conversation w))
          = set_status (arg_id conversation) PENDING (conversations w)"
    using None ex by (simp add: assignToAgent_nofault [OF nf] emit_tables)
  then show ?thesis using ex by (simp add: conversation_status_set)
next
  case (Some p)
  obtain agent rows where p: "p = (agent, rows)" by (cases p)
  have c: "conversations (snd (assignToAgent conversation w))
          = set_status (arg_id conversation) OPEN (conversations w)"
    using Some p ex by (simp add: assignToAgent_nofault [OF nf] emit_tables Let_def)
  have a: "conversationAgents (snd (assignToAgent conversation w))
          = conversationAgents w @
              [\<lparr>ca_userId = user_id agent, ca_conversationId = arg_id conversation,
                ca_isActive = True\<rparr>]"
    using Some p ex by (simp add: assignToAgent_nofault [OF nf] emit_tables Let_def)
  have "\<not> isUnassigned (snd (assignToAgent conversation w)) (arg_id conversation)"
    unfolding isUnassigned_def a by simp
  then show ?thesis using c ex by (simp add: conversation_status_set)
qed

lemma processIncomingMessage_fresh:
  assumes "arg_id conversation \<notin> processingQueue w"
  shows "processIncomingMessage content conversation acct now aiReply w =
     (snd (try_catch
             (bind_io (shouldUseChatbot conversation now) (\<lambda>shouldUseBot.
                if shouldUseBot
                then processChatbotResponse content conversation acct aiReply
                else assignToAgent conversation))
             (\<lambda>error. log_error error)
             (w\<lparr>processingQueue := insert (arg_id conversation) (processingQueue w)\<rparr>)))
       \<lparr>processingQueue :=
          processingQueue (snd (try_catch
             (bind_io (shouldUseChatbot conversation now) (\<lambda>shouldUseBot.
                if shouldUseBot
                then processChatbotResponse content conversation acct aiReply
                else assignToAgent conversation))
             (\<lambda>error. log_error error)
             (w\<lparr>processingQueue := insert (arg_id conversation) (processingQueue w)\<rparr>)))
            - {arg_id conversation}\<rparr>"
  using assms by (simp add: processIncomingMessage_def Let_def)



section \<open>The routing rule\<close>

lemma try_catch_returns:
  assumes "\<And>e w'. fst (h e w') = Inr ()"
  shows "fst (try_catch m h w) = Inr ()"
proof (cases "m w")
  case (Pair r w')
  then show ?thesis using assms by (cases r) (simp_all add: try_catch_def)
qed

lemma processChatbotResponse_returns:
  "fst (processChatbotResponse content conversation acct aiReply w) = Inr ()"
  unfolding processChatbotResponse_def
  by (rule try_catch_returns) (simp add: bind_io_def log_error_def assignToAgent_returns)

lemma case_processChatbotResponse:
  "(case processChatbotResponse content conversation acct aiReply w of
      (Inl e, w') \<Rightarrow> f e w' | (Inr x, w') \<Rightarrow> g x w')
     = g () (snd (processChatbotResponse content conversation acct aiReply w))"
  using processChatbotResponse_returns [of content conversation acct aiReply w]
  by (cases "processChatbotResponse content conversation acct aiReply w") auto

text \<open>
  Claim C2. When no store call throws, \<^verbatim>\<open>shouldUseChatbot\<close> answers true exactly when
  the company has an active chatbot and no agent is online, or the clock is outside
  business hours, or the conversation has no active assignment. A call of
  \<^verbatim>\<open>processIncomingMessage\<close> for a conversation that is not already being processed
  then runs the chatbot pipeline when the answer is true and \<^verbatim>\<open>assignToAgent\<close> when it
  is false.
\<close>

theorem shouldUseChatbot_rule:
  assumes nf: "faults w = []"
  shows "fst (shouldUseChatbot conversation now w) =
           Inr (hasActiveChatbot w (arg_companyId conversation)
                \<and> (onlineAgentCount w (arg_companyId conversation) = 0
                    \<or> \<not> isBusinessHours now
                    \<or> isUnassigned w (arg_id conversation)))
       \<and> (arg_id conversation \<notin> processingQueue w \<longrightarrow>
            processIncomingMessage content conversation acct now aiReply w =
              (let w1 = snd (shouldUseChatbot conversation now
                          (w\<lparr>processingQueue := insert (arg_id conversation) (processingQueue w)\<rparr>));
                   w2 = (if use_chatbot_rule w conversation now
                         then snd (processChatbotResponse content conversation acct aiReply w1)
                         else snd (assignToAgent conversation w1))
               in w2\<lparr>processingQueue := processingQueue w2 - {arg_id conversation}\<rparr>))"
proof (intro conjI impI)
  show "fst (shouldUseChatbot conversation now w) =
           Inr (hasActiveChatbot w (arg_companyId conversation)
                \<and> (onlineAgentCount w (arg_companyId conversation) = 0
                    \<or> \<not> isBusinessHours now
                    \<or> isUnassigned w (arg_id conversation)))"
    using shouldUseChatbot_nofault [OF nf] by (simp add: use_chatbot_rule_def)
next
  assume q: "arg_id conversation \<notin> processingQueue w"
  let ?wq = "w\<lparr>processingQueue := insert (arg_id conversation) (processingQueue w)\<rparr>"
  have nfq: "faults ?wq = []" using nf by simp
  have same: "use_chatbot_rule ?wq conversation now = use_chatbot_rule w conversation now"
    by (simp add: use_chatbot_rule_def hasActiveChatbot_def onlineAgentCount_def
        isUnassigned_def)
  have d: "fst (shouldUseChatbot conversation now ?wq) = Inr (use_chatbot_rule w conversation now)"
    using shouldUseChatbot_nofault [OF nfq] same by simp
  define w1 where "w1 = snd (shouldUseChatbot conversation now ?wq)"
  have s: "shouldUseChatbot conversation now ?wq = (Inr (use_chatbot_rule w conversation now), w1)"
    using d unfolding w1_def by (metis prod.collapse)
  have body: "try_catch
      (bind_io (shouldUseChatbot conversation now) (\<lambda>shouldUseBot.
         if shouldUseBot
         then processChatbotResponse content conversation acct aiReply
         else assignToAgent conversation))
      (\<lambda>error. log_error error) ?wq =
      (Inr (), if use_chatbot_rule w conversation now
               then snd (processChatbotResponse content conversation acct aiReply w1)
               else snd (assignToAgent conversation w1))"
    by (simp add: try_catch_def bind_io_def s case_assignToAgent case_processChatbotResponse)
  show "processIncomingMessage content conversation acct now aiReply w =
              (let w1 = snd (shouldUseChatbot conversation now ?wq);
                   w2 = (if use_chatbot_rule w conversation now
                         then snd (processChatbotResponse content conversation acct aiReply w1)
                         else snd (assignToAgent conversation w1))
               in w2\<lparr>processingQueue := processingQueue w2 - {arg_id conversation}\<rparr>)"
    unfolding processIncomingMessage_fresh [OF q] body w1_def [symmetric]
    by (simp add: Let_def)
qed

theorem shouldUseChatbot_rule_witness:
  "faults bot_world = []
   \<and> arg_id c1_arg \<notin> processingQueue bot_world
   \<and> isBusinessHours monday_10h
   \<and> onlineAgentCount bot_world ''acme'' = 1
   \<and> isUnassigned bot_world ''c1''
   \<and> fst (shouldUseChatbot c1_arg monday_10h bot_world) = Inr True"
  using shouldUseChatbot_rule [of bot_world c1_arg monday_10h]
  by (simp add: bot_world_def empty_world_def c1_arg_def monday_10h_def agent1_def
      hasActiveChatbot_def onlineAgentCount_def isUnassigned_def isBusinessHours_def
      sabado_def)

section \<open>Escalation by keyword\<close>

lemma keyword_forces_transfer:
  "k \<in> set transferKeywords \<Longrightarrow> includes_str (toLowerCase userMessage) k \<Longrightarrow>
     shouldTransferToAgent response userMessage"
  by (auto simp: shouldTransferToAgent_def list_ex_iff Let_def)

lemma startsWith_map: "startsWith s k \<Longrightarrow> startsWith (map f s) (map f k)"
  by (induction s k rule: startsWith.induct) auto

lemma includes_str_map: "includes_str s k \<Longrightarrow> includes_str (map f s) (map f k)"
proof (induction s)
  case Nil
  then show ?case by simp
next
  case (Cons c cs)
  then show ?case using startsWith_map [of "c # cs" k f] by auto
qed

lemma keywords_lower_case: "k \<in> set transferKeywords \<Longrightarrow> toLowerCase k = k"
  by (auto simp: transferKeywords_def toLowerCase_def lower_char_def)

text \<open>A keyword that occurs in the text as written occurs in the lower-cased text.\<close>

lemma literal_keyword:
  assumes "k \<in> set transferKeywords" and "includes_str userMessage k"
  shows "includes_str (toLowerCase userMessage) k"
  using includes_str_map [OF assms(2), of lower_char] keywords_lower_case [OF assms(1)]
  by (simp add: toLowerCase_def)

lemma processChatbotResponse_escalates:
  assumes "faults w = []"
      and "\<And>response. shouldTransferToAgent response content"
  shows "\<exists>L. snd (processChatbotResponse content conversation acct aiReply w)
               = snd (assignToAgent conversation (w\<lparr>logged := L\<rparr>))"
proof -
  have same: "w\<lparr>logged := logged w\<rparr> = w" by simp
  show ?thesis
  proof (cases "find (\<lambda>b. bot_companyId b = arg_companyId conversation \<and> bot_isActive b) (chatbots w)")
    case None
    then have "snd (processChatbotResponse content conversation acct aiReply w)
                 = snd (assignToAgent conversation w)"
      using assms(1)
      by (simp add: processChatbotResponse_def try_catch_def bind_io_def message_findMany_def
          chatbot_findFirst_def collaborator_call_nofault case_assignToAgent)
    then show ?thesis using same by metis
  next
    case (Some bot)
    show ?thesis
    proof (cases "arg_contact conversation")
      case None
      then have "snd (processChatbotResponse content conversation acct aiReply w)
                   = snd (assignToAgent conversation (w\<lparr>logged := logged w @ [TypeError]\<rparr>))"
        using assms(1) Some
        by (simp add: processChatbotResponse_def try_catch_def bind_io_def message_findMany_def
            chatbot_findFirst_def collaborator_call_nofault case_assignToAgent
            buildAIContext_def throw_io_def log_error_def)
      then show ?thesis by blast
    next
      case c: (Some c)
      show ?thesis
      proof (cases aiReply)
        case None
        then have "snd (processChatbotResponse content conversation acct aiReply w)
                   = snd (assignToAgent conversation (w\<lparr>logged := logged w @ [CollaboratorError]\<rparr>))"
          using assms(1) Some c
          by (simp add: processChatbotResponse_def try_catch_def bind_io_def message_findMany_def
              chatbot_findFirst_def collaborator_call_nofault case_assignToAgent
              buildAIContext_def generateAIResponse_def throw_io_def log_error_def return_io_def)
        then show ?thesis by blast
      next
        case r: (Some response)
        then have "snd (processChatbotResponse content conversation acct aiReply w)
                   = snd (assignToAgent conversation w)"
          using assms Some c
          by (simp add: processChatbotResponse_def try_catch_def bind_io_def message_findMany_def
              chatbot_findFirst_def collaborator_call_nofault case_assignToAgent
              buildAIContext_def generateAIResponse_def throw_io_def log_error_def return_io_def)
        then show ?thesis using same by metis
      qed
    qed
  qed
qed

text \<open>
  Claim C8. When the user's text contains a transfer keyword, in whatever case its
  letters are written (the code looks for the keyword in the lower-cased text), the reply
  that \<^verbatim>\<open>generateAIResponse\<close> builds asks for a transfer whatever the completion
  service answered, and after \<^verbatim>\<open>processChatbotResponse\<close> the conversation is either
  OPEN with an active assignment or PENDING. No store call throws and the conversation
  is a row of the store.
\<close>

theorem escalation_keyword_hands_over:
  assumes nf: "faults w = []"
      and k: "k \<in> set transferKeywords"
      and inc: "includes_str (toLowerCase content) k"
      and ex: "conversation_exists w (arg_id conversation)"
  shows "(\<exists>r w'. generateAIResponse content context aiReply w = (Inr r, w')
                 \<and> resp_shouldTransferToAgent r)
       \<and> ((conversation_status (snd (processChatbotResponse content conversation acct aiReply w))
              (arg_id conversation) = Some OPEN
            \<and> \<not> isUnassigned (snd (processChatbotResponse content conversation acct aiReply w))
                  (arg_id conversation))
          \<or> conversation_status (snd (processChatbotResponse content conversation acct aiReply w))
              (arg_id conversation) = Some PENDING)"
proof -
  have tr: "\<And>response. shouldTransferToAgent response content"
    using k inc by (rule keyword_forces_transfer)
  have gen: "\<exists>r w'. generateAIResponse content context aiReply w = (Inr r, w')
                 \<and> resp_shouldTransferToAgent r"
    using tr
    by (cases aiReply)
       (simp_all add: generateAIResponse_def try_catch_def throw_io_def bind_io_def
          log_error_def return_io_def)
  from processChatbotResponse_escalates [OF nf tr]
  obtain L where L: "snd (processChatbotResponse content conversation acct aiReply w)
               = snd (assignToAgent conversation (w\<lparr>logged := L\<rparr>))"
    by blast
  have nf': "faults (w\<lparr>logged := L\<rparr>) = []" using nf by simp
  have ex': "conversation_exists (w\<lparr>logged := L\<rparr>) (arg_id conversation)"
    using ex by (simp add: conversation_exists_def)
  from assignToAgent_outcome [OF nf' ex'] gen show ?thesis
    unfolding L by blast
qed

theorem escalation_keyword_hands_over_witness:
  "faults bot_world = []
   \<and> ''atendente'' \<in> set transferKeywords
   \<and> includes_str escalation_text ''atendente''
   \<and> includes_str (toLowerCase escalation_text) ''atendente''
   \<and> conversation_exists bot_world ''c1''
   \<and> conversation_status
        (snd (processChatbotResponse escalation_text ana_arg ''wa1'' (Some ''Claro, posso ajudar.'') bot_world))
        ''c1'' = Some OPEN
   \<and> \<not> isUnassigned
        (snd (processChatbotResponse escalation_text ana_arg ''wa1'' (Some ''Claro, posso ajudar.'') bot_world))
        ''c1''"
proof -
  have nf: "faults bot_world = []" by (simp add: bot_world_def empty_world_def)
  have k: "''atendente'' \<in> set transferKeywords" by (simp add: transferKeywords_def)
  have lit: "includes_str escalation_text ''atendente''"
    by (simp add: escalation_text_def)
  have inc: "includes_str (toLowerCase escalation_text) ''atendente''"
    using k lit by (rule literal_keyword)
  have ex: "conversation_exists bot_world (arg_id ana_arg)"
    by (simp add: conversation_exists_def bot_world_def empty_world_def open_conversation_def ana_arg_def)
  have tr: "shouldTransferToAgent ''Claro, posso ajudar.'' escalation_text"
    using k inc by (rule keyword_forces_transfer)
  have run: "conversations
        (snd (processChatbotResponse escalation_text ana_arg ''wa1'' (Some ''Claro, posso ajudar.'') bot_world))
        = [(open_conversation ''c1'' ''k1'')]"
    using tr by (simp add: exec_defs bot_world_def empty_world_def agent1_def
          open_conversation_def ana_arg_def)
  have st: "conversation_status
        (snd (processChatbotResponse escalation_text ana_arg ''wa1'' (Some ''Claro, posso ajudar.'') bot_world))
        ''c1'' = Some OPEN"
    unfolding conversation_status_def run by (simp add: open_conversation_def)
  show ?thesis
    using nf k lit inc ex st
      escalation_keyword_hands_over [OF nf k inc ex, where acct = "''wa1''" and aiReply = "Some ''Claro, posso ajudar.''"]
    by (simp add: ana_arg_def)
qed


section \<open>Routing when a lookup throws\<close>




section \<open>The re-entrancy guard\<close>

text \<open>
  Claim C10. A call for a conversation whose id is in \<^verbatim>\<open>processingQueue\<close> touches no
  table, sends nothing and emits nothing, but its \<^verbatim>\<open>finally\<close> block removes the id
  from the queue: the guard of the call still in flight is released.
\<close>

theorem reentrant_call_releases_guard:
  assumes "arg_id conversation \<in> processingQueue w"
  shows "processIncomingMessage content conversation acct now aiReply w =
           w\<lparr>processingQueue := processingQueue w - {arg_id conversation}\<rparr>"
  using assms by (simp add: processIncomingMessage_def)

theorem reentrant_call_releases_guard_witness:
  "arg_id c1_arg \<in> processingQueue busy_world
   \<and> processingQueue (processIncomingMessage ''oi'' c1_arg ''wa1'' monday_10h None busy_world) = {}
   \<and> processIncomingMessage ''oi'' c1_arg ''wa1'' monday_10h None busy_world = bot_world"
proof -
  have q: "arg_id c1_arg \<in> processingQueue busy_world" by (simp add: busy_world_def bot_world_def empty_world_def c1_arg_def)
  show ?thesis
    using q reentrant_call_releases_guard [OF q, of "''oi''" "''wa1''" monday_10h None]
    by (simp add: busy_world_def bot_world_def empty_world_def c1_arg_def)
qed


section \<open>Active assignments of a conversation\<close>

lemma assignToAgent_keeps_prior_assignments:
  assumes nf: "faults w = []" and cs: "candidates w (arg_companyId conversation) \<noteq> []"
  shows "\<exists>agent :: user. active_of (snd (assignToAgent conversation w)) (arg_id conversation) =
           active_of w (arg_id conversation) @
             [\<lparr>ca_userId = user_id agent, ca_conversationId = arg_id conversation,
               ca_isActive = True\<rparr>]"
proof -
  from least_loaded_Some [OF cs]
  obtain p where p: "least_loaded w (arg_companyId conversation) = Some p" by blast
  obtain agent rows where pr: "p = (agent, rows)" by (cases p)
  have "conversationAgents (snd (assignToAgent conversation w)) =
          conversationAgents w @
            [\<lparr>ca_userId = user_id agent, ca_conversationId = arg_id conversation,
              ca_isActive = True\<rparr>]"
    using p pr by (simp add: assignToAgent_nofault [OF nf] Let_def emit_tables)
  then have "active_of (snd (assignToAgent conversation w)) (arg_id conversation) =
           active_of w (arg_id conversation) @
             [\<lparr>ca_userId = user_id agent, ca_conversationId = arg_id conversation,
               ca_isActive = True\<rparr>]"
    by (simp add: active_of_def)
  then show ?thesis by blast
qed

text \<open>
  The two manual paths keep a conversation at one active assignment: the HTTP handler
  deactivates every earlier row, the socket handler refuses an assigned conversation.
\<close>

lemma filter_deactivated:
  "filter (\<lambda>a. ca_conversationId a = cid \<and> ca_isActive a)
     (map (\<lambda>a. if ca_conversationId a = cid then a\<lparr>ca_isActive := False\<rparr> else a) rows) = []"
  by (induction rows) auto

lemma assign_route_single_active:
  assumes nf: "faults w = []"
      and ok: "fst (assign_route requester conversationId agentId w) = Inr Ok_200"
  shows "\<exists>agent :: user.
           active_of (snd (assign_route requester conversationId agentId w)) conversationId =
             [\<lparr>ca_userId = user_id agent, ca_conversationId = conversationId, ca_isActive = True\<rparr>]"
  using nf ok
  by (auto simp: assign_route_def try_catch_def bind_io_def conversation_findFirst_def
      user_findUnique_def conversationAgent_updateMany_def conversationAgent_create_def
      conversation_update_def notifyCompany_def return_io_def log_error_def
      collaborator_call_nofault active_of_def filter_deactivated
      split: option.splits if_splits)

lemma conversation_take_single_active:
  assumes nf: "faults w = []"
  shows "active_of (snd (conversation_take requester conversationId w)) conversationId =
           active_of w conversationId
       \<or> (active_of w conversationId = []
          \<and> active_of (snd (conversation_take requester conversationId w)) conversationId =
               [\<lparr>ca_userId = user_id requester, ca_conversationId = conversationId,
                 ca_isActive = True\<rparr>])"
  using nf
  by (auto simp: conversation_take_def try_catch_def bind_io_def
      conversationAgent_create_def conversation_update_def return_io_def log_error_def
      collaborator_call_nofault active_of_def find_Some_iff
      split: option.splits if_splits)

text \<open>
  Claim C1. Automatic routing adds an active assignment and deactivates none: a second
  inbound message on the assigned conversation c1 leaves it with two active assignments.
\<close>

theorem second_message_second_assignment:
  "active_of assigned_world ''c1'' = [assigned ''agent1'' ''c1'']
   \<and> active_of (processIncomingMessage ''oi'' c1_arg ''wa1'' monday_10h None assigned_world) ''c1''
       = [assigned ''agent1'' ''c1'', assigned ''agent2'' ''c1'']"
  by (simp add: processIncomingMessage_def active_of_def exec_defs
      assigned_world_def empty_world_def agent1_def agent2_def open_conversation_def
      assigned_def c1_arg_def monday_10h_def)

section \<open>Properties of find-or-create\<close>

lemmas foc_defs =
  findOrCreateUnifiedConversation_def whatsapp_findOrCreate_def
  conversation_findFirst_def conversation_create_def conversation_update_def
  collaborator_call_def try_catch_def bind_io_def return_io_def throw_io_def log_error_def
  is_active_for_def

lemma find_Some_filter: "find P xs = Some c \<Longrightarrow> \<exists>rest. filter P xs = c # rest"
  by (induction xs) (auto split: if_splits)

lemma find_None_filter: "find P xs = None \<Longrightarrow> filter P xs = []"
  by (induction xs) (auto split: if_splits)

lemma find_Some_in: "find P xs = Some c \<Longrightarrow> c \<in> set xs \<and> P c"
  by (induction xs) (auto split: if_splits)

lemma filter_Cons_find: "filter P xs = c # rest \<Longrightarrow> find P xs = Some c"
  by (induction xs) (auto split: if_splits)

lemma filter_Nil_find: "filter P xs = [] \<Longrightarrow> find P xs = None"
  by (induction xs) (auto split: if_splits)

lemma active_ids_metadata_update:
  "map conv_id (filter (is_active_for k co)
      (map (\<lambda>x. if conv_id x = i then x\<lparr>meta_channels := a, meta_lastChannel := b\<rparr> else x) xs))
   = map conv_id (filter (is_active_for k co) xs)"
  by (induction xs) (auto simp: is_active_for_def)

text \<open>
  Claim C3, as amended. When no store call throws: if the contact has an OPEN or
  PENDING conversation with the company, both services return the first such
  conversation; if it has none, both create one, and the new conversation has status
  OPEN.
\<close>

theorem find_or_create_result:
  assumes nf: "faults w = []"
  shows "(\<forall>c rest. filter (is_active_for contactId companyId) (conversations w) = c # rest \<longrightarrow>
            (\<exists>r w'. findOrCreateUnifiedConversation newId contactId channel companyId w = (Inr r, w')
                \<and> conv_id r = conv_id c \<and> conv_contactId r = contactId
                \<and> conv_companyId r = companyId \<and> conv_status r = conv_status c
                \<and> (conv_status r = OPEN \<or> conv_status r = PENDING))
            \<and> whatsapp_findOrCreate newId contactId companyId accountId w = (Inr c, w))
       \<and> (filter (is_active_for contactId companyId) (conversations w) = [] \<longrightarrow>
            (\<exists>r. findOrCreateUnifiedConversation newId contactId channel companyId w =
                    (Inr r, w\<lparr>conversations := conversations w @ [r]\<rparr>)
                \<and> conv_id r = newId \<and> conv_contactId r = contactId
                \<and> conv_companyId r = companyId \<and> conv_status r = OPEN)
            \<and> (\<exists>r. whatsapp_findOrCreate newId contactId companyId accountId w =
                    (Inr r, w\<lparr>conversations := conversations w @ [r]\<rparr>)
                \<and> conv_id r = newId \<and> conv_contactId r = contactId
                \<and> conv_companyId r = companyId \<and> conv_status r = OPEN))"
proof (intro conjI allI impI)
  fix c rest
  assume f: "filter (is_active_for contactId companyId) (conversations w) = c # rest"
  have fd: "find (is_active_for contactId companyId) (conversations w) = Some c"
    using f by (rule filter_Cons_find)
  have act: "is_active_for contactId companyId c \<and> c \<in> set (conversations w)"
    using find_Some_in [OF fd] by simp
  have ex: "list_ex (\<lambda>x. conv_id x = conv_id c) (conversations w)"
    using act by (auto simp: list_ex_iff)
  show "\<exists>r w'. findOrCreateUnifiedConversation newId contactId channel companyId w = (Inr r, w')
                \<and> conv_id r = conv_id c \<and> conv_contactId r = contactId
                \<and> conv_companyId r = companyId \<and> conv_status r = conv_status c
                \<and> (conv_status r = OPEN \<or> conv_status r = PENDING)"
    using nf fd act ex
    by (auto simp: findOrCreateUnifiedConversation_def try_catch_def bind_io_def
        conversation_findFirst_def conversation_update_def return_io_def
        collaborator_call_nofault is_active_for_def Let_def split: option.splits)
  show "whatsapp_findOrCreate newId contactId companyId accountId w = (Inr c, w)"
    using nf fd
    by (simp add: whatsapp_findOrCreate_def bind_io_def conversation_findFirst_def
        return_io_def collaborator_call_nofault)
next
  assume f: "filter (is_active_for contactId companyId) (conversations w) = []"
  have fd: "find (is_active_for contactId companyId) (conversations w) = None"
    using f by (rule filter_Nil_find)
  show "\<exists>r. findOrCreateUnifiedConversation newId contactId channel companyId w =
                    (Inr r, w\<lparr>conversations := conversations w @ [r]\<rparr>)
                \<and> conv_id r = newId \<and> conv_contactId r = contactId
                \<and> conv_companyId r = companyId \<and> conv_status r = OPEN"
    using nf fd
    by (simp add: findOrCreateUnifiedConversation_def try_catch_def bind_io_def
        conversation_findFirst_def conversation_create_def collaborator_call_nofault)
  show "\<exists>r. whatsapp_findOrCreate newId contactId companyId accountId w =
                    (Inr r, w\<lparr>conversations := conversations w @ [r]\<rparr>)
                \<and> conv_id r = newId \<and> conv_contactId r = contactId
                \<and> conv_companyId r = companyId \<and> conv_status r = OPEN"
    using nf fd
    by (simp add: whatsapp_findOrCreate_def bind_io_def
        conversation_findFirst_def conversation_create_def collaborator_call_nofault)
qed

theorem find_or_create_result_witness:
  "faults bot_world = []
   \<and> filter (is_active_for ''k1'' ''acme'') (conversations bot_world) = [open_conversation ''c1'' ''k1'']
   \<and> whatsapp_findOrCreate ''n1'' ''k1'' ''acme'' ''wa1'' bot_world
       = (Inr (open_conversation ''c1'' ''k1''), bot_world)
   \<and> filter (is_active_for ''k2'' ''acme'') (conversations bot_world) = []
   \<and> returned_status (findOrCreateUnifiedConversation ''n1'' ''k2'' ''EMAIL'' ''acme'' bot_world)
       = Inr OPEN"
proof -
  have nf: "faults bot_world = []" by (simp add: bot_world_def empty_world_def)
  have f1: "filter (is_active_for ''k1'' ''acme'') (conversations bot_world)
              = [open_conversation ''c1'' ''k1'']"
    by (simp add: is_active_for_def bot_world_def empty_world_def open_conversation_def)
  have f2: "filter (is_active_for ''k2'' ''acme'') (conversations bot_world) = []"
    by (simp add: is_active_for_def bot_world_def empty_world_def open_conversation_def)
  from find_or_create_result [OF nf, of "''k1''" "''acme''" "''n1''" "''WHATSAPP''" "''wa1''"] f1
  have a: "whatsapp_findOrCreate ''n1'' ''k1'' ''acme'' ''wa1'' bot_world
       = (Inr (open_conversation ''c1'' ''k1''), bot_world)" by blast
  from find_or_create_result [OF nf, of "''k2''" "''acme''" "''n1''" "''EMAIL''" "''wa1''"] f2
  have b: "returned_status (findOrCreateUnifiedConversation ''n1'' ''k2'' ''EMAIL'' ''acme'' bot_world)
       = Inr OPEN" by (auto simp: returned_status_def)
  from nf f1 a f2 b show ?thesis by blast
qed

text \<open>
  Claim C3 as stated fails: on a store with no conversation the conversation that is
  created has status OPEN, not PENDING, in both services.
\<close>

theorem created_status_counterexample:
  "returned_status (findOrCreateUnifiedConversation ''n1'' ''k1'' ''WHATSAPP'' ''acme'' empty_world)
     = Inr OPEN
   \<and> returned_status (whatsapp_findOrCreate ''n1'' ''k1'' ''acme'' ''wa1'' empty_world) = Inr OPEN"
  by (simp add: returned_status_def empty_world_def foc_defs)

subsection \<open>Handlers that overlap and handlers that do not\<close>

text \<open>
  The two parts of a handler, run without another handler in between, are the
  find-or-create of the service.
\<close>

lemma whatsapp_phases:
  "bind_io (lookup_conversation (WhatsApp accountId) (newId, contactId, channel, companyId))
           (settle_conversation (WhatsApp accountId) (newId, contactId, channel, companyId))
     = whatsapp_findOrCreate newId contactId companyId accountId"
  unfolding whatsapp_findOrCreate_def
  by (rule arg_cong2 [where f = bind_io])
     (simp_all add: lookup_conversation_def settle_conversation_def fun_eq_iff)

lemma try_catch_rethrow_bind:
  "try_catch (bind_io a f) (\<lambda>error. bind_io (log_error error) (\<lambda>_. throw_io error))
     = bind_io (try_catch a (\<lambda>error. bind_io (log_error error) (\<lambda>_. throw_io error)))
         (\<lambda>x. try_catch (f x) (\<lambda>error. bind_io (log_error error) (\<lambda>_. throw_io error)))"
  by (rule ext) (simp add: try_catch_def bind_io_def log_error_def throw_io_def
      split: prod.splits sum.splits)

lemma omnichannel_phases:
  "bind_io (lookup_conversation Omnichannel (newId, contactId, channel, companyId))
           (settle_conversation Omnichannel (newId, contactId, channel, companyId))
     = findOrCreateUnifiedConversation newId contactId channel companyId"
  unfolding findOrCreateUnifiedConversation_def try_catch_rethrow_bind
  by (rule arg_cong2 [where f = bind_io])
     (simp_all add: lookup_conversation_def settle_conversation_def fun_eq_iff)

lemma lookup_conversation_nofault:
  assumes "faults w = []"
  shows "lookup_conversation service (newId, k, ch, co) w
           = (Inr (find (is_active_for k co) (conversations w)), w)"
  using assms
  by (cases service)
     (simp_all add: lookup_conversation_def conversation_findFirst_def try_catch_def
        collaborator_call_nofault)

lemma settle_conversation_nofault:
  assumes nf: "faults w = []"
  shows "\<exists>c w'. settle_conversation service (newId, k', ch, co')
                    (find (is_active_for k' co') (conversations w)) w = (Inr c, w')
           \<and> faults w' = [] \<and> is_active_for k' co' c
           \<and> conv_id c = (case active_ids w k' co' of [] \<Rightarrow> newId | x # _ \<Rightarrow> x)
           \<and> active_ids w' k' co' = (case active_ids w k' co' of [] \<Rightarrow> [newId] | x # xs \<Rightarrow> x # xs)
           \<and> (\<forall>k co. (k, co) \<noteq> (k', co') \<longrightarrow> active_ids w' k co = active_ids w k co)"
proof (cases "find (is_active_for k' co') (conversations w)")
  case None
  have e: "filter (is_active_for k' co') (conversations w) = []"
    using None by (rule find_None_filter)
  show ?thesis
    using nf None e
    by (cases service)
       (auto simp: settle_conversation_def try_catch_def conversation_create_def
          collaborator_call_nofault active_ids_def is_active_for_def)
next
  case (Some c)
  from find_Some_filter [OF Some] obtain rest where
    f: "filter (is_active_for k' co') (conversations w) = c # rest" by blast
  have act: "is_active_for k' co' c" using find_Some_in [OF Some] by simp
  have ex: "list_ex (\<lambda>x. conv_id x = conv_id c) (conversations w)"
    using find_Some_in [OF Some] by (auto simp: list_ex_iff)
  show ?thesis
  proof (cases service)
    case Omnichannel
    show ?thesis
      using nf Some f ex act
      by (auto simp: Omnichannel settle_conversation_def try_catch_def bind_io_def
          conversation_update_def return_io_def collaborator_call_nofault active_ids_def
          active_ids_metadata_update Let_def is_active_for_def
          split: option.splits)
  next
    case (WhatsApp accountId)
    show ?thesis
      using nf Some f act
      by (auto simp: WhatsApp settle_conversation_def return_io_def active_ids_def)
  qed
qed


lemma handler_looks:
  assumes nf: "faults w = []" and j: "j < length events" and len: "length stages = length events"
    and wt: "stages ! j = Waiting" and ev: "events ! j = (newId, k', ch, co')"
  shows "resume service events (stages, w) j
           = (stages[j := Looked (find (is_active_for k' co') (conversations w))], w)"
  using j len wt
  by (simp add: resume_def advance_def ev lookup_conversation_nofault [OF nf])

lemma handler_settles:
  assumes nf: "faults w = []" and j: "j < length events" and len: "length stages = length events"
    and wt: "stages ! j = Waiting" and ev: "events ! j = (newId, k', ch, co')"
  shows "\<exists>c w'. resume service events (resume service events (stages, w) j) j
                    = (stages[j := Finished (Inr c)], w')
           \<and> faults w' = [] \<and> is_active_for k' co' c
           \<and> conv_id c = (case active_ids w k' co' of [] \<Rightarrow> newId | x # _ \<Rightarrow> x)
           \<and> active_ids w' k' co' = (case active_ids w k' co' of [] \<Rightarrow> [newId] | x # xs \<Rightarrow> x # xs)
           \<and> (\<forall>k co. (k, co) \<noteq> (k', co') \<longrightarrow> active_ids w' k co = active_ids w k co)"
proof -
  from settle_conversation_nofault [OF nf, of service newId k' ch co']
  obtain c w' where
    r: "settle_conversation service (newId, k', ch, co')
          (find (is_active_for k' co') (conversations w)) w = (Inr c, w')"
    and rest: "faults w' = []" "is_active_for k' co' c"
      "conv_id c = (case active_ids w k' co' of [] \<Rightarrow> newId | x # _ \<Rightarrow> x)"
      "active_ids w' k' co' = (case active_ids w k' co' of [] \<Rightarrow> [newId] | x # xs \<Rightarrow> x # xs)"
      "\<forall>k co. (k, co) \<noteq> (k', co') \<longrightarrow> active_ids w' k co = active_ids w k co"
    by blast
  have "resume service events (resume service events (stages, w) j) j
          = (stages[j := Finished (Inr c)], w')"
    unfolding handler_looks [OF nf j len wt ev]
    using j len by (simp add: resume_def advance_def ev r)
  with rest show ?thesis by blast
qed

lemma handler_keeps_single:
  assumes one: "length (active_ids w k co) \<le> 1"
    and same: "active_ids w' k' co' = (case active_ids w k' co' of [] \<Rightarrow> [newId] | x # xs \<Rightarrow> x # xs)"
    and other: "\<forall>k co. (k, co) \<noteq> (k', co') \<longrightarrow> active_ids w' k co = active_ids w k co"
  shows "length (active_ids w' k co) \<le> 1"
    and "active_ids w k co \<noteq> [] \<Longrightarrow> active_ids w' k co = active_ids w k co"
proof -
  show "length (active_ids w' k co) \<le> 1"
  proof (cases "(k, co) = (k', co')")
    case True
    then show ?thesis using one same by (cases "active_ids w k' co'") simp_all
  next
    case False
    then show ?thesis using one other by simp
  qed
  show "active_ids w k co \<noteq> [] \<Longrightarrow> active_ids w' k co = active_ids w k co"
  proof (cases "(k, co) = (k', co')")
    case True
    assume "active_ids w k co \<noteq> []"
    then show ?thesis using True same by (cases "active_ids w k' co'") simp_all
  next
    case False
    then show ?thesis using other by simp
  qed
qed

lemma serial_run:
  assumes "faults w = []" and "length (active_ids w k co) \<le> 1"
    and "length stages = length events"
    and "\<forall>i. j \<le> i \<and> i < length events \<longrightarrow> stages ! i = Waiting"
    and "j + n = length events"
  shows "\<exists>stages' w'. foldl (resume service events) (stages, w) (serial_from j n) = (stages', w')
           \<and> faults w' = [] \<and> length stages' = length events
           \<and> length (active_ids w' k co) \<le> 1
           \<and> (active_ids w k co \<noteq> [] \<longrightarrow> active_ids w' k co = active_ids w k co)
           \<and> (\<forall>i < j. stages' ! i = stages ! i)
           \<and> (\<forall>i. j \<le> i \<and> i < length events \<and> from_pair k co (events ! i) \<longrightarrow>
                  (\<exists>c. stages' ! i = Finished (Inr c) \<and> is_active_for k co c
                       \<and> active_ids w' k co = [conv_id c]))"
  using assms
proof (induction n arbitrary: j stages w)
  case 0
  then show ?case by simp
next
  case (Suc n)
  have j: "j < length events" using Suc.prems(5) by simp
  have wt: "stages ! j = Waiting" using Suc.prems(4) j by simp
  obtain newId k' ch co' where ev: "events ! j = (newId, k', ch, co')"
    by (cases "events ! j")
  from handler_settles [OF Suc.prems(1) j Suc.prems(3) wt ev, of service]
  obtain c w1 where
    two: "resume service events (resume service events (stages, w) j) j
            = (stages[j := Finished (Inr c)], w1)"
    and nf1: "faults w1 = []" and act: "is_active_for k' co' c"
    and cid: "conv_id c = (case active_ids w k' co' of [] \<Rightarrow> newId | x # _ \<Rightarrow> x)"
    and same: "active_ids w1 k' co' = (case active_ids w k' co' of [] \<Rightarrow> [newId] | x # xs \<Rightarrow> x # xs)"
    and other: "\<forall>k co. (k, co) \<noteq> (k', co') \<longrightarrow> active_ids w1 k co = active_ids w k co"
    by blast
  let ?st1 = "stages[j := Finished (Inr c)]"
  have one1: "length (active_ids w1 k co) \<le> 1"
    and keep1: "active_ids w k co \<noteq> [] \<Longrightarrow> active_ids w1 k co = active_ids w k co"
    using handler_keeps_single [OF Suc.prems(2) same other] by blast+
  have len1: "length ?st1 = length events" using Suc.prems(3) by simp
  have wt1: "\<forall>i. Suc j \<le> i \<and> i < length events \<longrightarrow> ?st1 ! i = Waiting"
    using Suc.prems(4) by simp
  have n1: "Suc j + n = length events" using Suc.prems(5) by simp
  from Suc.IH [OF nf1 one1 len1 wt1 n1]
  obtain stages' w' where
    run: "foldl (resume service events) (?st1, w1) (serial_from (Suc j) n) = (stages', w')"
    and nf': "faults w' = []" and len': "length stages' = length events"
    and one': "length (active_ids w' k co) \<le> 1"
    and keep': "active_ids w1 k co \<noteq> [] \<longrightarrow> active_ids w' k co = active_ids w1 k co"
    and before: "\<forall>i < Suc j. stages' ! i = ?st1 ! i"
    and after: "\<forall>i. Suc j \<le> i \<and> i < length events \<and> from_pair k co (events ! i) \<longrightarrow>
                  (\<exists>c. stages' ! i = Finished (Inr c) \<and> is_active_for k co c
                       \<and> active_ids w' k co = [conv_id c])"
    by blast
  have run': "foldl (resume service events) (stages, w) (serial_from j (Suc n)) = (stages', w')"
    using run two by simp
  have keep: "active_ids w k co \<noteq> [] \<longrightarrow> active_ids w' k co = active_ids w k co"
    using keep1 keep' by auto
  have bef: "\<forall>i < j. stages' ! i = stages ! i"
    using before by simp
  have here: "from_pair k co (events ! j) \<Longrightarrow>
                stages' ! j = Finished (Inr c) \<and> is_active_for k co c
                \<and> active_ids w' k co = [conv_id c]"
  proof -
    assume fp: "from_pair k co (events ! j)"
    then have kk: "k' = k" "co' = co" by (simp_all add: ev from_pair_def)
    have a1: "active_ids w1 k co = [conv_id c]"
      using same cid Suc.prems(2) unfolding kk
      by (cases "active_ids w k co") simp_all
    then have "active_ids w' k co = [conv_id c]" using keep' by simp
    moreover have "stages' ! j = Finished (Inr c)"
      using before j Suc.prems(3) by simp
    ultimately show ?thesis using act kk by simp
  qed
  have aft: "\<forall>i. j \<le> i \<and> i < length events \<and> from_pair k co (events ! i) \<longrightarrow>
                  (\<exists>c. stages' ! i = Finished (Inr c) \<and> is_active_for k co c
                       \<and> active_ids w' k co = [conv_id c])"
  proof (intro allI impI)
    fix i assume i: "j \<le> i \<and> i < length events \<and> from_pair k co (events ! i)"
    show "\<exists>c. stages' ! i = Finished (Inr c) \<and> is_active_for k co c
                \<and> active_ids w' k co = [conv_id c]"
    proof (cases "i = j")
      case True
      then show ?thesis using here i by blast
    next
      case False
      then have "Suc j \<le> i" using i by simp
      then show ?thesis using after i by blast
    qed
  qed
  from run' nf' len' one' keep bef aft show ?case by blast
qed

lemma serial_prefix:
  assumes "faults w = []" and "length (active_ids w k co) \<le> 1"
    and "length stages = length events"
    and "\<forall>i. j \<le> i \<and> i < length events \<longrightarrow> stages ! i = Waiting"
    and "j + n = length events"
  shows "length (active_ids
            (snd (foldl (resume service events) (stages, w) (take m (serial_from j n)))) k co) \<le> 1"
  using assms
proof (induction n arbitrary: j stages w m)
  case 0
  then show ?case by simp
next
  case (Suc n)
  have j: "j < length events" using Suc.prems(5) by simp
  have wt: "stages ! j = Waiting" using Suc.prems(4) j by simp
  obtain newId k' ch co' where ev: "events ! j = (newId, k', ch, co')"
    by (cases "events ! j")
  note look = handler_looks [OF Suc.prems(1) j Suc.prems(3) wt ev, of service]
  show ?case
  proof (cases m)
    case 0
    then show ?thesis using Suc.prems(2) by simp
  next
    case m1: (Suc m')
    show ?thesis
    proof (cases m')
      case 0
      then show ?thesis using Suc.prems(2) m1 look by simp
    next
      case (Suc m'')
      from handler_settles [OF Suc.prems(1) j Suc.prems(3) wt ev, of service]
      obtain c w1 where
        two: "resume service events (resume service events (stages, w) j) j
                = (stages[j := Finished (Inr c)], w1)"
        and nf1: "faults w1 = []"
        and same: "active_ids w1 k' co' = (case active_ids w k' co' of [] \<Rightarrow> [newId] | x # xs \<Rightarrow> x # xs)"
        and other: "\<forall>k co. (k, co) \<noteq> (k', co') \<longrightarrow> active_ids w1 k co = active_ids w k co"
        by blast
      let ?st1 = "stages[j := Finished (Inr c)]"
      have one1: "length (active_ids w1 k co) \<le> 1"
        using handler_keeps_single [OF Suc.prems(2) same other] by blast
      have len1: "length ?st1 = length events" using Suc.prems(3) by simp
      have wt1: "\<forall>i. Suc j \<le> i \<and> i < length events \<longrightarrow> ?st1 ! i = Waiting"
        using Suc.prems(4) by simp
      have n1: "Suc j + n = length events" using Suc.prems(5) by simp
      from Suc.IH [OF nf1 one1 len1 wt1 n1, of m'']
      show ?thesis using m1 Suc two by simp
    qed
  qed
qed

text \<open>
  Claim C4, as amended. The handlers of a list of inbound events run one after the
  other, each finishing its find-or-create before the next one looks up, and no store
  call throws. If the contact and company have at most one OPEN or PENDING conversation
  at the start, then every event of the pair ends with a conversation of one and the same
  id, which is the id of the only OPEN or PENDING conversation of the pair in the
  store; a conversation that was active at the start is the one that is reused; and
  after every step of the run, also between a lookup and the part after it, the pair has
  at most one OPEN or PENDING conversation. Events of other pairs may come in between.
  It holds for the omnichannel service and for the WhatsApp service.
\<close>

theorem single_active_conversation:
  assumes nf: "faults w = []" and one: "length (active_ids w contactId companyId) \<le> 1"
  shows "(\<exists>cid. \<forall>i < length events. from_pair contactId companyId (events ! i) \<longrightarrow>
            (\<exists>c. fst (run_handlers service events (serial (length events)) w) ! i = Finished (Inr c)
                 \<and> conv_id c = cid \<and> is_active_for contactId companyId c
                 \<and> active_ids (snd (run_handlers service events (serial (length events)) w))
                      contactId companyId = [cid]))
       \<and> (\<forall>cid. active_ids w contactId companyId = [cid] \<longrightarrow>
             active_ids (snd (run_handlers service events (serial (length events)) w))
               contactId companyId = [cid])
       \<and> (\<forall>m. length (active_ids
                 (snd (run_handlers service events (take m (serial (length events))) w))
                 contactId companyId) \<le> 1)"
proof -
  let ?init = "replicate (length events) Waiting"
  have len: "length ?init = length events" by simp
  have wt: "\<forall>i. 0 \<le> i \<and> i < length events \<longrightarrow> ?init ! i = Waiting" by simp
  have n: "0 + length events = length events" by simp
  obtain stages' w' where
    run0: "foldl (resume service events) (?init, w) (serial_from 0 (length events)) = (stages', w')"
    by (cases "foldl (resume service events) (?init, w) (serial_from 0 (length events))")
  note sr = serial_run [OF nf one len wt n, of service, unfolded run0]
  have keep: "active_ids w contactId companyId \<noteq> [] \<longrightarrow>
                 active_ids w' contactId companyId = active_ids w contactId companyId"
    using sr by simp
  have res: "\<forall>i. i < length events \<and> from_pair contactId companyId (events ! i) \<longrightarrow>
                  (\<exists>c. stages' ! i = Finished (Inr c) \<and> is_active_for contactId companyId c
                       \<and> active_ids w' contactId companyId = [conv_id c])"
    using sr by simp
  have run: "run_handlers service events (serial (length events)) w = (stages', w')"
    unfolding run_handlers_def serial_def by (rule run0)
  have a: "\<exists>cid. \<forall>i < length events. from_pair contactId companyId (events ! i) \<longrightarrow>
            (\<exists>c. stages' ! i = Finished (Inr c)
                 \<and> conv_id c = cid \<and> is_active_for contactId companyId c
                 \<and> active_ids w' contactId companyId = [cid])"
  proof (rule exI [where x = "hd (active_ids w' contactId companyId)"], intro allI impI)
    fix i assume "i < length events" and "from_pair contactId companyId (events ! i)"
    with res obtain c where c: "stages' ! i = Finished (Inr c)"
      "is_active_for contactId companyId c" "active_ids w' contactId companyId = [conv_id c]"
      by blast
    then have "conv_id c = hd (active_ids w' contactId companyId)" by simp
    with c show "\<exists>c. stages' ! i = Finished (Inr c)
                 \<and> conv_id c = hd (active_ids w' contactId companyId)
                 \<and> is_active_for contactId companyId c
                 \<and> active_ids w' contactId companyId = [hd (active_ids w' contactId companyId)]"
      by auto
  qed
  have b: "\<forall>cid. active_ids w contactId companyId = [cid] \<longrightarrow>
             active_ids w' contactId companyId = [cid]"
    using keep by simp
  have c: "\<forall>m. length (active_ids
                 (snd (run_handlers service events (take m (serial (length events))) w))
                 contactId companyId) \<le> 1"
    unfolding run_handlers_def serial_def
    using serial_prefix [OF nf one len wt n, of service] by blast
  from a b c show ?thesis unfolding run by simp
qed

theorem single_active_conversation_witness:
  "faults empty_world = []
   \<and> length (active_ids empty_world ''k1'' ''acme'') \<le> 1
   \<and> map (from_pair ''k1'' ''acme'') three_events = [True, False, True]
   \<and> map returned_id (fst (run_handlers Omnichannel three_events (serial (length three_events)) empty_world))
       = [Some ''n1'', Some ''n2'', Some ''n1'']
   \<and> active_ids (snd (run_handlers Omnichannel three_events (serial (length three_events)) empty_world))
        ''k1'' ''acme'' = [''n1'']"
proof -
  let ?run = "run_handlers Omnichannel three_events (serial (length three_events)) empty_world"
  have nf: "faults empty_world = []" by (simp add: empty_world_def)
  have one: "length (active_ids empty_world ''k1'' ''acme'') \<le> 1"
    by (simp add: active_ids_def empty_world_def)
  have fp: "map (from_pair ''k1'' ''acme'') three_events = [True, False, True]"
    by (simp add: from_pair_def three_events_def)
  have ids: "map returned_id (fst ?run) = [Some ''n1'', Some ''n2'', Some ''n1'']"
    by (simp add: run_handlers_def serial_def resume_def advance_def lookup_conversation_def
        settle_conversation_def returned_id_def three_events_def empty_world_def foc_defs)
  have r0: "returned_id (fst ?run ! 0) = Some ''n1''"
    by (simp add: run_handlers_def serial_def resume_def advance_def lookup_conversation_def
        settle_conversation_def returned_id_def three_events_def empty_world_def foc_defs)
  have l: "0 < length three_events" by (simp add: three_events_def)
  have p0: "from_pair ''k1'' ''acme'' (three_events ! 0)"
    by (simp add: three_events_def from_pair_def)
  from single_active_conversation [OF nf one, of three_events Omnichannel]
  have "\<exists>cid. \<forall>i < length three_events. from_pair ''k1'' ''acme'' (three_events ! i) \<longrightarrow>
       (\<exists>c. fst ?run ! i = Finished (Inr c) \<and> conv_id c = cid
            \<and> is_active_for ''k1'' ''acme'' c
            \<and> active_ids (snd ?run) ''k1'' ''acme'' = [cid])"
    by (rule conjunct1)
  then obtain cid where all: "\<forall>i < length three_events. from_pair ''k1'' ''acme'' (three_events ! i) \<longrightarrow>
       (\<exists>c. fst ?run ! i = Finished (Inr c) \<and> conv_id c = cid
            \<and> is_active_for ''k1'' ''acme'' c
            \<and> active_ids (snd ?run) ''k1'' ''acme'' = [cid])" ..
  from all l p0 obtain c where
    c: "fst ?run ! 0 = Finished (Inr c)" "conv_id c = cid"
    and a: "active_ids (snd ?run) ''k1'' ''acme'' = [cid]"
    by blast
  have "cid = ''n1''"
    using r0 unfolding c(1) by (simp add: returned_id_def c(2))
  then have act: "active_ids (snd ?run) ''k1'' ''acme'' = [''n1'']"
    using a by simp
  from nf one fp ids act show ?thesis by blast
qed

text \<open>
  Claim C4 as stated fails: when the handlers of two events of the same contact and
  company overlap, both look up before either creates, both find nothing, and both
  create. The two events get different conversation ids and the pair has two OPEN
  conversations, in both services.
\<close>

theorem interleaved_handlers_counterexample:
  "map (from_pair ''k1'' ''acme'') two_events = [True, True]
   \<and> map returned_id (fst (run_handlers Omnichannel two_events [0, 1, 0, 1] empty_world))
       = [Some ''n1'', Some ''n2'']
   \<and> active_ids (snd (run_handlers Omnichannel two_events [0, 1, 0, 1] empty_world))
        ''k1'' ''acme'' = [''n1'', ''n2'']
   \<and> map returned_id (fst (run_handlers (WhatsApp ''wa1'') two_events [0, 1, 0, 1] empty_world))
       = [Some ''n1'', Some ''n2'']
   \<and> active_ids (snd (run_handlers (WhatsApp ''wa1'') two_events [0, 1, 0, 1] empty_world))
        ''k1'' ''acme'' = [''n1'', ''n2'']"
  by (simp add: run_handlers_def resume_def advance_def lookup_conversation_def
      settle_conversation_def returned_id_def from_pair_def active_ids_def two_events_def
      empty_world_def foc_defs)

section \<open>Cancelling a campaign\<close>

lemma process_batches_returns:
  "(\<forall>k. \<not> write_throws env k) \<Longrightarrow> \<exists>res' d'. process_batches env c i res d = (Inr res', d')"
proof (induction env c i res d rule: process_batches.induct)
  case (1 env c i res d)
  show ?case
  proof (cases "i < length (camp_recipients c) \<and> camp_id c \<in> runningCampaigns d")
    case False
    then show ?thesis by (subst process_batches.simps) auto
  next
    case True
    obtain res' d1 where
      f: "foldl (send_one env) (res, d) (take batchSize (drop i (camp_recipients c))) = (res', d1)"
      by (cases "foldl (send_one env) (res, d) (take batchSize (drop i (camp_recipients c)))")
    from True f "1.prems" "1.IH" [OF _ _ f [symmetric]] show ?thesis
      by (subst process_batches.simps) (simp add: Let_def)
  qed
qed

text \<open>
  Claim C6. The dispatcher leaves the batch loop when the campaign's id is gone from
  the registry, and then goes on to the final write: unless a progress write throws,
  the last status \<^verbatim>\<open>processCampaign\<close> writes is SENT, whatever other handlers,
  \<^verbatim>\<open>cancelCampaign\<close> among them, did while it ran. A campaign cancelled after its first
  batch ends SENT, not CANCELLED.
\<close>

theorem processCampaign_ends_SENT:
  assumes "\<forall>k. \<not> write_throws env k"
  shows "stored_status (processCampaign env c d) (camp_id c) = Some SENT"
proof -
  from process_batches_returns [OF assms] obtain res' d' where
    "process_batches env c 0 (camp_results c)
       (d\<lparr>runningCampaigns := insert (camp_id c) (runningCampaigns d),
          announced := announced d @ [CampaignStarted (camp_id c) (length (camp_recipients c))]\<rparr>)
      = (Inr res', d')"
    by blast
  then show ?thesis by (simp add: processCampaign_def Let_def)
qed

theorem processCampaign_ends_SENT_witness:
  "\<not> write_throws cancel_after_first_batch 0
   \<and> stored_status (snd (cancelCampaign ''camp1'' sending_dispatch)) ''camp1'' = Some CANCELLED
   \<and> stored_status (processCampaign cancel_after_first_batch campaign25 sending_dispatch)
        (camp_id campaign25) = Some SENT
   \<and> ''camp1'' \<notin> runningCampaigns (processCampaign cancel_after_first_batch campaign25 sending_dispatch)
   \<and> length (sent_to (processCampaign cancel_after_first_batch campaign25 sending_dispatch)) = 10
   \<and> map_option res_sent
        (stored_results (processCampaign cancel_after_first_batch campaign25 sending_dispatch) ''camp1'')
       = Some 10"
proof -
  have h: "\<forall>k. \<not> write_throws cancel_after_first_batch k"
    by (simp add: cancel_after_first_batch_def)
  have c: "stored_status (snd (cancelCampaign ''camp1'' sending_dispatch)) ''camp1'' = Some CANCELLED"
    by (simp add: cancelCampaign_def sending_dispatch_def draft_dispatch_def)
  have r: "''camp1'' \<notin> runningCampaigns (processCampaign cancel_after_first_batch campaign25 sending_dispatch)"
    by code_simp
  have n: "length (sent_to (processCampaign cancel_after_first_batch campaign25 sending_dispatch)) = 10"
    by code_simp
  have s: "map_option res_sent
        (stored_results (processCampaign cancel_after_first_batch campaign25 sending_dispatch) ''camp1'')
       = Some 10"
    by code_simp
  from h c r n s
    processCampaign_ends_SENT [OF h, of campaign25 sending_dispatch]
  show ?thesis by blast
qed


end
